theory Spec2Isabelle
  imports Complex_Main "HOL-Library.Word"
begin

section \<open>Quadifier: the Direct3D capture and OpenGL composite core\<close>

text \<open>
  A shallow embedding of \<^verbatim>\<open>quadifier/win32/module/source/Quadifier.cpp\<close>.

  The class \<^verbatim>\<open>Quadifier\<close> becomes a record of its member variables, each member
  function a HOL function from the object's state to its new state. Calls that leave
  the class (Direct3D, OpenGL, the WGL interop extension, Win32, the log) are recorded,
  in the order the code makes them, in the ghost field \<open>trace\<close>: every log line (its
  literal text, without the values streamed after it) and every call that acts on the
  device, the window or a thread. A call that only asks (a query, a \<^verbatim>\<open>glGen...\<close>) or
  that releases a reference leaves no event; what it answers is not decided by this
  file, so it is an input: the record \<open>Env\<close> holds one answer for every call site that
  reads one.

  \<^verbatim>\<open>exit(1)\<close> is the error value \<open>ProcessExit 1\<close>. Indexing \<^verbatim>\<open>m_target\<close> beyond its
  size is undefined behaviour in C++; the model makes it the error value
  \<open>IndexOutOfRange\<close> rather than reading an unspecified list element.
\<close>

subsection \<open>Values of the graphics interfaces\<close>

type_synonym GLuint = "32 word"
type_synonym GLenum = "32 word"
type_synonym DWORD = "32 word"
type_synonym pointer = "32 word"

text \<open>The OpenGL draw buffer names of \<^verbatim>\<open>GL/gl.h\<close>, used as slot labels.\<close>

definition GL_NONE :: GLenum where "GL_NONE = 0"
definition GL_BACK_LEFT :: GLenum where "GL_BACK_LEFT = 0x0402"
definition GL_BACK_RIGHT :: GLenum where "GL_BACK_RIGHT = 0x0403"
definition GL_BACK :: GLenum where "GL_BACK = 0x0405"

text \<open>Constants of \<^verbatim>\<open>d3d9types.h\<close> and \<^verbatim>\<open>GL/glext.h\<close> that the code compares with.\<close>

definition D3DMULTISAMPLE_NONE :: int where "D3DMULTISAMPLE_NONE = 0"
definition D3DMULTISAMPLE_2_SAMPLES :: int where "D3DMULTISAMPLE_2_SAMPLES = 2"
definition D3DMULTISAMPLE_16_SAMPLES :: int where "D3DMULTISAMPLE_16_SAMPLES = 16"
definition D3DFMT_X8R8G8B8 :: "32 word" where "D3DFMT_X8R8G8B8 = 22"
definition GL_FRAMEBUFFER_COMPLETE :: GLenum where "GL_FRAMEBUFFER_COMPLETE = 0x8CD5"
definition GL_FRAMEBUFFER_INCOMPLETE_MISSING_ATTACHMENT :: GLenum where
  "GL_FRAMEBUFFER_INCOMPLETE_MISSING_ATTACHMENT = 0x8CD7"

text \<open>\<^verbatim>\<open>D3DVIEWPORT9\<close>; the two floats \<^verbatim>\<open>MinZ\<close>, \<^verbatim>\<open>MaxZ\<close> are kept as their bit patterns
  (the code only copies them).\<close>

record D3DVIEWPORT9 =
  X :: DWORD
  Y :: DWORD
  Width :: DWORD
  Height :: DWORD
  MinZ :: "32 word"
  MaxZ :: "32 word"

text \<open>\<^verbatim>\<open>D3DVIEWPORT9 viewport = {}\<close>: value initialisation, every member zero.\<close>

definition zero_viewport :: D3DVIEWPORT9 where
  "zero_viewport = \<lparr>X = 0, Y = 0, Width = 0, Height = 0, MinZ = 0, MaxZ = 0\<rparr>"

text \<open>The members of \<^verbatim>\<open>D3DSURFACE_DESC\<close> that the code reads.\<close>

record D3DSURFACE_DESC =
  desc_Format :: DWORD
  desc_MultiSampleType :: int
  desc_Width :: DWORD
  desc_Height :: DWORD

subsection \<open>Calls that leave the class\<close>

datatype event =
    Log string
  | Call string
  | D3D_GetViewport
  | D3D_SetRenderTarget DWORD pointer
  | D3D_SetViewport D3DVIEWPORT9
  | D3D_CreateRenderTarget nat DWORD DWORD DWORD int
  | D3D_GetRenderTarget_backBuffer
  | SendNotifyMessage_NEWFRAME
  | PostMessage_QUIT pointer
  | PostMessage_forward pointer
  | FrameDone_wait nat
  | FrameDone_signal
  | BeginThread
  | EndThread
  | RunMessageLoop
  | Window_show
  | Window_swapBuffers
  | Window_invalidate
  | Window_update
  | GL_DrawBuffer GLenum
  | GL_LockObject pointer
  | GL_UnlockObject pointer
  | GL_BlitFramebuffer GLuint DWORD DWORD
  | GL_BindTexture GLuint
  | GL_CallList GLuint
  | GL_Viewport DWORD DWORD

datatype error = ProcessExit int | IndexOutOfRange

subsection \<open>The render target pool and the object state\<close>

text \<open>
  \<^verbatim>\<open>RenderTarget\<close> is declared in \<^verbatim>\<open>Quadifier.h\<close>, which is not among the sources; the
  members below are the ones \<^verbatim>\<open>Quadifier.cpp\<close> reads and writes. Pointers and handles
  are 32-bit values (the code casts a surface pointer to \<^verbatim>\<open>unsigned\<close>), 0 is null.
\<close>

record RenderTarget =
  surface :: pointer
  shareHandle :: pointer
  texture :: GLuint
  renderBuffer :: GLuint
  frameBuffer :: GLuint
  object :: pointer
  drawBuffer :: GLuint

record Quadifier =
  m_device :: pointer
  m_direct3D :: pointer
  m_framesGL :: "32 word"
  m_framesDX :: "32 word"
  m_samplesDX :: "32 word"
  m_samplesGL :: "32 word"
  m_backBuffer :: pointer
  m_drawBuffer :: nat
  m_readBuffer :: nat
  m_target :: "RenderTarget list"
  m_stereoMode :: bool
  m_firstFrameTimeGL :: real
  m_lastFrameTimeGL :: real
  m_quadListGL :: GLuint
  m_thread :: pointer
  m_sourceWindow :: pointer
  m_interopGLDX :: pointer
  m_width :: DWORD
  m_height :: DWORD
  m_initialised :: bool
  m_stereoAvailable :: bool
  m_presentedTargets :: "32 word set"
  trace :: "event list"

text \<open>
  The two cursors \<^verbatim>\<open>m_drawBuffer\<close> and \<^verbatim>\<open>m_readBuffer\<close> are natural numbers: they
  stay below the pool size (theorem \<open>pool_inv_step\<close> below), so the increment in
  \<^verbatim>\<open>(m_drawBuffer + 1) % m_target.size()\<close> never wraps. The frame counters can wrap
  and are 32-bit words. The two timestamps are \<^verbatim>\<open>double\<close>s that only feed the log;
  they are kept as reals.
\<close>

subsection \<open>Answers of the environment\<close>

text \<open>
  \<open>Log_info\<close> and \<open>Log_verbose\<close> are \<^verbatim>\<open>Log::info()\<close> and \<^verbatim>\<open>Log::verbose()\<close>; the next three
  fields are the members of \<^verbatim>\<open>Settings::get()\<close>. A Direct3D query that can fail answers
  \<open>None\<close> for a failure code and \<open>Some\<close> of what it wrote for \<^verbatim>\<open>S_OK\<close>. A field that takes
  a number is asked once per loop iteration, with the loop counter. A call that returns
  an identifier or a handle answers 0 when it fails.
\<close>

text \<open>What \<^verbatim>\<open>createResources\<close> and \<^verbatim>\<open>startRenderThread\<close> are answered.\<close>

record CreateEnv =
  tmpWindow_getSamples :: "int option"
  hFocusWindow :: pointer
  GetAdapterDisplayMode :: "DWORD option"
  cr_GetRenderTarget :: "pointer option"
  cr_GetDesc :: "D3DSURFACE_DESC option"
  cr_GetViewport :: "D3DVIEWPORT9 option"
  GetDepthStencilSurface :: bool
  depth_GetDesc :: bool
  CreateRenderTarget :: "nat \<Rightarrow> (pointer \<times> pointer) option"
  backBuffer_GetRenderTarget :: "pointer option"
  beginthreadex :: pointer

text \<open>What \<^verbatim>\<open>threadFunc\<close> and \<^verbatim>\<open>onCreate\<close> are answered on the consumer thread.\<close>

record GLEnv =
  window_create :: bool
  window_getSamples :: "32 word"
  glx_load :: bool
  wglDXOpenDeviceNV :: pointer
  glGenTextures :: "nat \<Rightarrow> GLuint"
  glGenRenderbuffers :: "nat \<Rightarrow> GLuint"
  have_wglDXSetResourceShareHandleNV :: bool
  wglDXRegisterObjectNV :: "nat \<Rightarrow> pointer"
  glGenFramebuffers :: "nat \<Rightarrow> GLuint"
  attach_lock_ok :: "nat \<Rightarrow> bool"
  attach_unlock_ok :: "nat \<Rightarrow> bool"
  glCheckFramebufferStatus :: "nat \<Rightarrow> GLenum"

record Env =
  Log_info :: bool
  Log_verbose :: bool
  useTexture :: bool
  matchOriginalMSAA :: bool
  stereoIndicator :: bool
  GetViewport :: "D3DVIEWPORT9 option"
  SetRenderTarget_ok :: bool
  GetRenderTarget :: "pointer option"
  GetDesc :: bool
  wglDXLockObjectsNV_ok :: "nat \<Rightarrow> bool"
  glGenLists :: GLuint
  getTime :: real
  create_env :: CreateEnv
  gl_env :: GLEnv

definition emit :: "event \<Rightarrow> Quadifier \<Rightarrow> Quadifier" where
  "emit e s = s\<lparr>trace := trace s @ [e]\<rparr>"

definition logIf :: "bool \<Rightarrow> string \<Rightarrow> Quadifier \<Rightarrow> Quadifier" where
  "logIf enabled msg s = (if enabled then emit (Log msg) s else s)"

subsection \<open>Capture protocol\<close>

text \<open>\<^verbatim>\<open>Quadifier::endCapture\<close> (lines 978-995).\<close>

definition endCapture :: "Env \<Rightarrow> GLuint \<Rightarrow> Quadifier \<Rightarrow> error + Quadifier" where
  "endCapture env label s =
    (let s1 = logIf (Log_verbose env) ''endCapture '' s in
     if \<not> m_drawBuffer s1 < length (m_target s1) then Inl IndexOutOfRange
     else
       let s2 = s1\<lparr>m_target := (m_target s1)
                  [m_drawBuffer s1 := (m_target s1 ! m_drawBuffer s1)\<lparr>drawBuffer := label\<rparr>]\<rparr>;
           s3 = s2\<lparr>m_drawBuffer := (m_drawBuffer s2 + 1) mod length (m_target s2)\<rparr>
       in Inr (if m_stereoMode s3 then s3\<lparr>m_framesDX := m_framesDX s3 + 1\<rparr> else s3))"

text \<open>\<^verbatim>\<open>Quadifier::beginCapture\<close> (lines 944-974).\<close>

definition beginCapture :: "Env \<Rightarrow> Quadifier \<Rightarrow> error + Quadifier" where
  "beginCapture env s =
    (let s1 = logIf (Log_verbose env) ''beginCapture'' s;
         s2 = emit D3D_GetViewport s1;
         viewport = (case GetViewport env of Some v \<Rightarrow> v | None \<Rightarrow> zero_viewport);
         savedViewport = (GetViewport env \<noteq> None)
     in
     if \<not> m_drawBuffer s2 < length (m_target s2) then Inl IndexOutOfRange
     else
       let s3 = logIf (Log_verbose env) ''SetRenderTarget('' s2;
           s4 = emit (D3D_SetRenderTarget 0 (surface (m_target s3 ! m_drawBuffer s3))) s3
       in
       if \<not> SetRenderTarget_ok env then Inl (ProcessExit 1)
       else Inr (if savedViewport then emit (D3D_SetViewport viewport) s4 else s4))"

subsection \<open>Stereo signal detector\<close>

text \<open>\<^verbatim>\<open>Quadifier::onStereoSignal\<close> (lines 606-622).\<close>

definition onStereoSignal :: "Env \<Rightarrow> Quadifier \<Rightarrow> error + Quadifier" where
  "onStereoSignal env s =
    (let s1 = logIf (Log_verbose env) ''stereo signal'' s;
         s2 = (if \<not> m_stereoMode s1
               then logIf (Log_info env) ''Stereo enabled'' (s1\<lparr>m_stereoMode := True\<rparr>)
               else s1)
     in case endCapture env GL_BACK_LEFT s2 of
          Inl e \<Rightarrow> Inl e
        | Inr s3 \<Rightarrow> beginCapture env s3)"

text \<open>
  \<^verbatim>\<open>Quadifier::onPreSetViewportDX\<close> (lines 194-210). The argument is a pointer that may
  be null: \<open>None\<close> is \<^verbatim>\<open>nullptr\<close>. The result pairs the returned \<^verbatim>\<open>bool\<close> with the state.
\<close>

definition onPreSetViewportDX ::
    "Env \<Rightarrow> D3DVIEWPORT9 option \<Rightarrow> Quadifier \<Rightarrow> error + (bool \<times> Quadifier)" where
  "onPreSetViewportDX env pViewport s =
    (case pViewport of
       None \<Rightarrow> Inr (True, s)
     | Some vp \<Rightarrow>
         if X vp = 1 \<and> Width vp = 2 \<and> Height vp = 3
         then (case onStereoSignal env s of
                 Inl e \<Rightarrow> Inl e
               | Inr s' \<Rightarrow> Inr (True, s'))
         else Inr (True, s))"

subsection \<open>Construction\<close>

text \<open>
  Modelled from the spec: the size of the pool. \<^verbatim>\<open>m_target\<close> is declared in
  \<^verbatim>\<open>Quadifier.h\<close>, which is not among the sources; the code only asks
  \<^verbatim>\<open>m_target.size()\<close>. The spec fixes "pool size = 2".
\<close>

definition poolSize :: nat where
  "poolSize = 2"

text \<open>
  Modelled from the spec: a slot as its constructor leaves it. The constructor of
  \<^verbatim>\<open>RenderTarget\<close> is in the missing header; the spec gives a fresh slot the label
  "none", and \<^verbatim>\<open>createResources\<close> tests \<^verbatim>\<open>m_target[0].surface != 0\<close> to see whether the
  pool was already filled, so the handles start as null.
\<close>

definition RenderTarget_new :: RenderTarget where
  "RenderTarget_new =
     \<lparr>surface = 0, shareHandle = 0, texture = 0, renderBuffer = 0, frameBuffer = 0,
      object = 0, drawBuffer = GL_NONE\<rparr>"

text \<open>
  \<^verbatim>\<open>Quadifier::Quadifier\<close> (lines 49-85). The third argument is what
  \<^verbatim>\<open>isOpenGLStereoAvailable()\<close> answers.
\<close>

definition Quadifier_new :: "pointer \<Rightarrow> pointer \<Rightarrow> bool \<Rightarrow> Quadifier" where
  "Quadifier_new device direct3D stereoAvailable =
     \<lparr>m_device = device, m_direct3D = direct3D,
      m_framesGL = 0, m_framesDX = 0,
      m_samplesDX = 0, m_samplesGL = 0,
      m_backBuffer = 0, m_drawBuffer = 0, m_readBuffer = 0,
      m_target = replicate poolSize RenderTarget_new,
      m_stereoMode = False,
      m_firstFrameTimeGL = 0, m_lastFrameTimeGL = 0,
      m_quadListGL = 0, m_thread = 0, m_sourceWindow = 0, m_interopGLDX = 0,
      m_width = 0, m_height = 0,
      m_initialised = False,
      m_stereoAvailable = stereoAvailable,
      m_presentedTargets = {},
      trace = [Call ''Log::setLevel'']\<rparr>"

subsection \<open>Lifecycle: one-time resource creation\<close>

text \<open>
  \<^verbatim>\<open>Quadifier::isPresentedRenderTarget\<close> (lines 999-1036). The function is \<^verbatim>\<open>const\<close>; the
  state it returns differs from its argument by log lines only.
\<close>

definition isPresentedRenderTarget :: "Env \<Rightarrow> Quadifier \<Rightarrow> bool \<times> Quadifier" where
  "isPresentedRenderTarget env s =
    (if m_device s = 0 then (False, s)
     else
       case GetRenderTarget env of
         Some renderTarget \<Rightarrow>
           (renderTarget \<in> m_presentedTargets s,
            logIf (Log_verbose env \<and> GetDesc env) ''Render target: '' s)
       | None \<Rightarrow> (0 \<in> m_presentedTargets s, s))"

text \<open>\<^verbatim>\<open>Quadifier::startRenderThread\<close> (lines 1209-1230).\<close>

definition startRenderThread :: "Env \<Rightarrow> Quadifier \<Rightarrow> Quadifier" where
  "startRenderThread env s =
    (let s1 = logIf (Log_info env) ''starting GL rendering thread'' s in
     if m_thread s1 \<noteq> 0 then s1
     else
       let s2 = emit BeginThread s1;
           s3 = s2\<lparr>m_thread := beginthreadex (create_env env)\<rparr>
       in logIf (Log_info env) ''thread = '' s3)"

text \<open>
  The loop of \<^verbatim>\<open>createResources\<close> that creates the render targets (lines 1176-1195),
  from index \<open>i\<close> on. A failed \<^verbatim>\<open>CreateRenderTarget\<close> logs and leaves the loop.
\<close>

function create_targets :: "Env \<Rightarrow> DWORD \<Rightarrow> int \<Rightarrow> nat \<Rightarrow> Quadifier \<Rightarrow> Quadifier" where
  "create_targets env format multisampleType i s =
    (if i < length (m_target s) then
       let s1 = s\<lparr>m_target := (m_target s)[i := (m_target s ! i)\<lparr>shareHandle := 0\<rparr>]\<rparr>;
           s2 = emit (D3D_CreateRenderTarget i (m_width s1) (m_height s1)
                        format multisampleType) s1
       in case CreateRenderTarget (create_env env) i of
            None \<Rightarrow> emit (Log ''error: failed to create DX render target'') s2
          | Some (surf, share) \<Rightarrow>
              create_targets env format multisampleType (i + 1)
                (s2\<lparr>m_target := (m_target s2)
                      [i := (m_target s2 ! i)\<lparr>surface := surf, shareHandle := share\<rparr>]\<rparr>)
     else s)"
  by pat_completeness auto
termination
  by (relation "measure (\<lambda>(env, format, multisampleType, i, s). length (m_target s) - i)")
     (auto simp: emit_def)

declare create_targets.simps [simp del]

text \<open>
  \<^verbatim>\<open>Quadifier::createResources\<close> (lines 1040-1205), block by block. First the query for
  the number of samples that the driver forces (lines 1045-1066): the result is
  \<^verbatim>\<open>forcedSamplesDX\<close>.
\<close>

definition forced_samples :: "Env \<Rightarrow> Quadifier \<Rightarrow> int \<times> Quadifier" where
  "forced_samples env s =
    (let ce = create_env env;
         forcedSamples = (case tmpWindow_getSamples ce of Some n \<Rightarrow> n | None \<Rightarrow> 0);
         s0 = emit (Call ''GLWindow::create (temporary)'') s;
         s1 = logIf (Log_info env) ''OpenGL forced AA samples = ''
                (if tmpWindow_getSamples ce \<noteq> None
                 then emit (Call ''GLWindow::destroy (temporary)'') s0 else s0);
         forcedSamplesDX =
           (if forcedSamples > 1 then (if forcedSamples > 16 then 16 else forcedSamples)
            else D3DMULTISAMPLE_NONE)
     in (forcedSamplesDX, logIf (Log_info env) ''Create DX render targets'' s1))"

text \<open>The source window and the format of the display mode (lines 1070-1082).\<close>

definition display_format :: "Env \<Rightarrow> Quadifier \<Rightarrow> DWORD \<times> Quadifier" where
  "display_format env s =
    (let ce = create_env env;
         s3 = s\<lparr>m_sourceWindow := hFocusWindow ce\<rparr>
     in case GetAdapterDisplayMode ce of
          Some format \<Rightarrow> (format, s3)
        | None \<Rightarrow>
            (D3DFMT_X8R8G8B8,
             emit (Log ''error: failed to get adapter display mode (using default)'') s3))"

text \<open>
  The description of the current render target (lines 1084-1122): the result is
  \<^verbatim>\<open>desc.MultiSampleType\<close>; the width and height go to \<^verbatim>\<open>m_width\<close> and \<^verbatim>\<open>m_height\<close>.
\<close>

definition target_description :: "Env \<Rightarrow> Quadifier \<Rightarrow> int \<times> Quadifier" where
  "target_description env s =
    (let ce = create_env env;
         described =
           (case cr_GetRenderTarget ce of
              None \<Rightarrow>
                (D3DMULTISAMPLE_NONE, emit (Log ''error: failed to get render target'') s)
            | Some renderTarget \<Rightarrow>
                (case cr_GetDesc ce of
                   Some desc \<Rightarrow>
                     (desc_MultiSampleType desc,
                      emit (Log ''DX render target surface format: '')
                        (s\<lparr>m_width := desc_Width desc, m_height := desc_Height desc\<rparr>))
                 | None \<Rightarrow>
                     let viewport =
                           (case cr_GetViewport ce of Some v \<Rightarrow> v | None \<Rightarrow> zero_viewport);
                         s' = emit (Log ''error: failed to get render target description'') s
                     in (D3DMULTISAMPLE_NONE,
                         s'\<lparr>m_width := Width viewport, m_height := Height viewport\<rparr>)))
     in (fst described, logIf (Log_info env) ''DX viewport = '' (snd described)))"

text \<open>
  The multisample type of the new render targets and \<^verbatim>\<open>m_samplesDX\<close> (lines
  1124-1152).
\<close>

definition multisample_type :: "Env \<Rightarrow> int \<Rightarrow> int \<Rightarrow> Quadifier \<Rightarrow> int \<times> Quadifier" where
  "multisample_type env descMultiSampleType forcedSamplesDX s =
    (let s7 = logIf (Log_info env) ''DX multisample type = '' s;
         multisampleType =
           (if descMultiSampleType < forcedSamplesDX then forcedSamplesDX
            else descMultiSampleType);
         s8 = (if descMultiSampleType < forcedSamplesDX
               then emit (Log ''Forcing DX multisample type to: '') s7 else s7)
     in (multisampleType,
         s8\<lparr>m_samplesDX :=
               (if multisampleType \<ge> D3DMULTISAMPLE_2_SAMPLES
                   \<and> multisampleType \<le> D3DMULTISAMPLE_16_SAMPLES
                then word_of_int multisampleType else 0)\<rparr>))"

text \<open>The log lines about the depth/stencil surface (lines 1154-1173).\<close>

definition depth_stencil_info :: "Env \<Rightarrow> Quadifier \<Rightarrow> Quadifier" where
  "depth_stencil_info env s =
    (if GetDepthStencilSurface (create_env env) then
       (if depth_GetDesc (create_env env)
        then logIf (Log_info env) ''DX depth/stencil surface format: '' s
        else emit (Log ''error: failed to get depth surface description'') s)
     else emit (Log ''error: failed to get depth stencil surface'') s)"

text \<open>The whole function, with the early return of line 1068.\<close>

definition createResources :: "Env \<Rightarrow> Quadifier \<Rightarrow> error + Quadifier" where
  "createResources env s =
    (let (forcedSamplesDX, s2) = forced_samples env s in
     if m_target s2 = [] then Inl IndexOutOfRange
     else if surface (m_target s2 ! 0) \<noteq> 0 then Inr s2
     else
       let (displayFormat, s4) = display_format env s2;
           (descMultiSampleType, s6) = target_description env s4;
           (multisampleType, s9) =
             multisample_type env descMultiSampleType forcedSamplesDX s6;
           s10 = depth_stencil_info env s9;
           s11 = create_targets env displayFormat multisampleType 0 s10;
           s12 = emit D3D_GetRenderTarget_backBuffer s11;
           s13 = (case backBuffer_GetRenderTarget (create_env env) of
                    Some p \<Rightarrow> s12\<lparr>m_backBuffer := p\<rparr>
                  | None \<Rightarrow> s12);
           s14 = startRenderThread env s13
       in Inr (s14\<lparr>m_initialised := True\<rparr>))"

subsection \<open>Producer events\<close>

text \<open>\<^verbatim>\<open>Quadifier::onCreateDX\<close> and \<^verbatim>\<open>Quadifier::onPostClearDX\<close> have empty bodies.\<close>

definition onCreateDX :: "Quadifier \<Rightarrow> Quadifier" where
  "onCreateDX s = s"

definition onPostClearDX :: "Quadifier \<Rightarrow> Quadifier" where
  "onPostClearDX s = s"

text \<open>\<^verbatim>\<open>Quadifier::onPreClearDX\<close> (lines 113-135).\<close>

definition onPreClearDX :: "Env \<Rightarrow> Quadifier \<Rightarrow> error + Quadifier" where
  "onPreClearDX env s =
    (let s1 = logIf (Log_verbose env) ''onPreClearDX'' s;
         (presented, s2) = isPresentedRenderTarget env s1
     in
     if \<not> presented then Inr s2
     else
       case (if \<not> m_initialised s2 then createResources env s2 else Inr s2) of
         Inl e \<Rightarrow> Inl e
       | Inr s3 \<Rightarrow> beginCapture env s3)"

text \<open>\<^verbatim>\<open>Quadifier::onPrePresentDX\<close> (lines 145-179).\<close>

definition onPrePresentDX :: "Env \<Rightarrow> Quadifier \<Rightarrow> error + Quadifier" where
  "onPrePresentDX env s =
    (let s1 = logIf (Log_verbose env) ''onPrePresentDX'' s;
         s2 = (case GetRenderTarget env of
                 Some renderTarget \<Rightarrow>
                   logIf (Log_verbose env) ''Presenting Render Target: ''
                     (s1\<lparr>m_presentedTargets := insert renderTarget (m_presentedTargets s1)\<rparr>)
               | None \<Rightarrow> s1)
     in
     case endCapture env (if m_stereoMode s2 then GL_BACK_RIGHT else GL_BACK) s2 of
       Inl e \<Rightarrow> Inl e
     | Inr s3 \<Rightarrow>
         Inr (emit SendNotifyMessage_NEWFRAME
                (logIf (Log_verbose env) ''sending new frame notification'' s3)))"

text \<open>
  \<^verbatim>\<open>Quadifier::onPostPresentDX\<close> (lines 183-190). What \<^verbatim>\<open>m_frameDone.wait\<close> returns is
  not read.
\<close>

definition onPostPresentDX :: "Env \<Rightarrow> Quadifier \<Rightarrow> Quadifier" where
  "onPostPresentDX env s =
    emit (FrameDone_wait 1000) (logIf (Log_verbose env) ''onPostPresentDX'' s)"

subsection \<open>Consumer: OpenGL set-up\<close>

text \<open>
  Modelled from the spec: \<^verbatim>\<open>false_value\<close>, the condition of the \<^verbatim>\<open>do ... while\<close> in
  \<^verbatim>\<open>onCreate\<close> (line 407). It comes from \<^verbatim>\<open>Defines.h\<close>, which is not among the sources;
  the spec describes resource creation as happening once, so the block runs once and
  \<^verbatim>\<open>break\<close> leaves it.
\<close>

definition false_value :: bool where
  "false_value = False"

text \<open>
  One pass of the loop over the render targets in \<^verbatim>\<open>onCreate\<close> (lines 264-403), for
  slot \<open>i < m_target.size()\<close>. The first component is \<open>False\<close> when the pass leaves the
  loop by \<^verbatim>\<open>break\<close>.
\<close>

definition set_slot :: "nat \<Rightarrow> (RenderTarget \<Rightarrow> RenderTarget) \<Rightarrow> Quadifier \<Rightarrow> Quadifier" where
  "set_slot i f s = s\<lparr>m_target := (m_target s)[i := f (m_target s ! i)]\<rparr>"

definition attach_colour :: "Env \<Rightarrow> nat \<Rightarrow> Quadifier \<Rightarrow> Quadifier" where
  "attach_colour env i s =
    (let ge = gl_env env;
         s1 = logIf (Log_info env) ''glBindFramebuffer = ''
                (emit (Call ''glBindFramebuffer GL_FRAMEBUFFER'') s)
     in
     if useTexture env then
       (let s2 = emit (GL_LockObject (object (m_target s1 ! i))) s1 in
        if attach_lock_ok ge i then
          let s3 = emit (Call ''glFramebufferTexture2D'') s2;
              s4 = emit (GL_UnlockObject (object (m_target s3 ! i))) s3
          in if \<not> attach_unlock_ok ge i
             then emit (Log ''Error: UnLockObjectsNV for texture '') s4 else s4
        else emit (Log ''Error: LockObjectsNV for texture '') s2)
     else
       (let s2 = emit (GL_LockObject (object (m_target s1 ! i))) s1;
            s5 = (if attach_lock_ok ge i then
                    let s3 = emit (Call ''glFramebufferRenderbuffer'') s2;
                        s4 = emit (GL_UnlockObject (object (m_target s3 ! i))) s3
                    in if \<not> attach_unlock_ok ge i
                       then emit (Log ''Error: UnLockObjectsNV for renderBuffer '') s4 else s4
                  else emit (Log ''Error: LockObjectsNV for renderBuffer '') s2);
            s6 = emit (Call ''glBindRenderbuffer'') s5;
            s7 = (if Log_info env
                  then foldl (\<lambda>st name. emit (Log (''renderBuffer.'' @ name)) st) s6
                         [''width'', ''height'', ''format'', ''red'', ''green'', ''blue'',
                          ''alpha'', ''depth'', ''stencil'']
                  else s6)
        in emit (Call ''glBindRenderbuffer 0'') s7))"

definition check_status :: "Env \<Rightarrow> nat \<Rightarrow> Quadifier \<Rightarrow> Quadifier" where
  "check_status env i s =
    (let status = glCheckFramebufferStatus (gl_env env) i in
     if status \<noteq> GL_FRAMEBUFFER_COMPLETE \<or> Log_info env then
       let s1 = emit (Log ''glCheckFramebufferStatus = '') s in
       if status = GL_FRAMEBUFFER_INCOMPLETE_MISSING_ATTACHMENT
       then emit (Log ''For ATI cards this may show GL_FRAMEBUFFER_INCOMPLETE_MISSING_ATTACHMENT but gets corrected later.'') s1
       else s1
     else s)"

definition gl_target :: "Env \<Rightarrow> nat \<Rightarrow> Quadifier \<Rightarrow> bool \<times> Quadifier" where
  "gl_target env i s =
    (let ge = gl_env env;
         s1 = (if useTexture env
               then set_slot i (\<lambda>t. t\<lparr>texture := glGenTextures ge i\<rparr>) s
               else set_slot i (\<lambda>t. t\<lparr>renderBuffer := glGenRenderbuffers ge i\<rparr>) s)
     in
     if useTexture env \<and> texture (m_target s1 ! i) = 0
     then (False, emit (Log ''error: failed to generate texture ID'') s1)
     else if \<not> useTexture env \<and> renderBuffer (m_target s1 ! i) = 0
     then (False, emit (Log ''error: failed to generate render buffer ID'') s1)
     else
       let s2 = logIf (Log_info env) ''Setting SharedHandle '' s1 in
       if \<not> have_wglDXSetResourceShareHandleNV ge
       then (False, emit (Log ''Failed to set SharedHandle: '') s2)
       else
         let s3 = emit (Call ''wglDXSetResourceShareHandleNV'') s2;
             s4 = logIf (Log_info env) ''registering DX object '' s3;
             s5 = emit (Call ''wglDXRegisterObjectNV'')
                    (set_slot i (\<lambda>t. t\<lparr>object := wglDXRegisterObjectNV ge i\<rparr>) s4)
         in
         if object (m_target s5 ! i) = 0
         then (False, emit (Log ''error: wglDXRegisterObjectNV failed for render target: '') s5)
         else
           let s6 = set_slot i (\<lambda>t. t\<lparr>frameBuffer := glGenFramebuffers ge i\<rparr>) s5 in
           if frameBuffer (m_target s6 ! i) = 0
           then (False, emit (Log ''error: glGenFramebuffers failed'') s6)
           else (True, check_status env i (attach_colour env i s6)))"

text \<open>The loop itself: it returns the value of \<^verbatim>\<open>i\<close> with which the loop was left.\<close>

function gl_targets :: "Env \<Rightarrow> nat \<Rightarrow> Quadifier \<Rightarrow> nat \<times> Quadifier" where
  "gl_targets env i s =
    (if i < length (m_target s) then
       (case gl_target env i s of
          (False, s') \<Rightarrow> (i, s')
        | (True, s') \<Rightarrow> gl_targets env (i + 1) s')
     else (i, s))"
  by pat_completeness auto
termination
proof (relation "measure (\<lambda>(env, i, s). length (m_target s) - i)")
  fix env :: Env and i :: nat and s s' :: Quadifier and ok :: bool
  assume less: "i < length (m_target s)" and pass: "(ok, s') = gl_target env i s"
  have len_emit: "length (m_target (emit e q)) = length (m_target q)" for e q
    by (simp add: emit_def)
  have len_log: "length (m_target (logIf b m q)) = length (m_target q)" for b m q
    by (simp add: logIf_def len_emit)
  have len_slot: "length (m_target (set_slot j f q)) = length (m_target q)" for j f q
    by (simp add: set_slot_def)
  have len_fold: "length (m_target (foldl (\<lambda>st name. emit (Log (p @ name)) st) q ns))
      = length (m_target q)" for p q ns
    by (induction ns arbitrary: q) (simp_all add: len_emit)
  have len_attach: "length (m_target (attach_colour env i q)) = length (m_target q)" for q
    by (simp add: attach_colour_def Let_def len_emit len_log len_fold)
  have len_status: "length (m_target (check_status env i q)) = length (m_target q)" for q
    by (simp add: check_status_def Let_def len_emit)
  have "length (m_target (snd (gl_target env i s))) = length (m_target s)"
    by (simp add: gl_target_def Let_def len_emit len_log len_slot len_attach len_status)
  with pass have "length (m_target s') = length (m_target s)"
    by (metis snd_conv)
  with less show "((env, i + 1, s'), (env, i, s))
      \<in> measure (\<lambda>(env, i, s). length (m_target s) - i)"
    by simp
qed simp

declare gl_targets.simps [simp del]

text \<open>
  \<^verbatim>\<open>Quadifier::onCreate\<close> (lines 214-421); the result pairs the returned \<^verbatim>\<open>success\<close> with
  the state. The block under \<^verbatim>\<open>do\<close> runs again only while \<open>false_value\<close> holds, that
  is never.
\<close>

definition onCreate :: "Env \<Rightarrow> Quadifier \<Rightarrow> bool \<times> Quadifier" where
  "onCreate env s =
    (let ge = gl_env env;
         s1 = logIf (Log_info env) ''GL Renderer: ''
                (logIf (Log_info env) ''GL Vendor  : ''
                  (logIf (Log_info env) ''GL Version : '' s));
         s2 = logIf (Log_info env) ''GL Samples : ''
                (s1\<lparr>m_samplesGL := window_getSamples ge\<rparr>);
         s3 = logIf (Log_info env) ''OpenGL pixel format = '' s2;
         s4 = logIf (Log_info env) ''OpenGL maximum texture size = '' s3;
         (success, s5) =
           (if \<not> glx_load ge
            then (False, emit (Log ''error: failed to load GL extensions'') s4)
            else
              let s4a = logIf (Log_info env) ''loaded GL extensions'' s4;
                  s4b = logIf (Log_info env) ''creating GL/DX interop'' s4a;
                  s4c = emit (Call ''wglDXOpenDeviceNV'')
                          (s4b\<lparr>m_interopGLDX := wglDXOpenDeviceNV ge\<rparr>)
              in
              if m_interopGLDX s4c = 0
              then (False, emit (Log ''error: failed to create GL/DX interop'') s4c)
              else
                let s4d = logIf (Log_info env) ''generating render buffers'' s4c;
                    (i, s4e) = gl_targets env 0 s4d
                in (i = length (m_target s4e), s4e))
     in (success, emit (Call ''default OpenGL settings and viewing system'') s5))"

text \<open>\<^verbatim>\<open>Quadifier::onDestroy\<close> (lines 425-456).\<close>

definition onDestroy :: "Env \<Rightarrow> Quadifier \<Rightarrow> Quadifier" where
  "onDestroy env s =
    (let s1 = (if m_quadListGL s \<noteq> 0
               then (emit (Call ''glDeleteLists'') s)\<lparr>m_quadListGL := 0\<rparr> else s)
     in
     if Log_info env then
       let s2 = emit (Log ''DX frames = '')
                  (emit (Log ''GL frames = '')
                    (emit (Log ''DX presented targets = '')
                      (emit (Log ''onDestroy'') s1)));
           s3 = (if m_framesGL s2 > 0 then emit (Log ''DX/GL metric = '') s2 else s2)
       in if m_lastFrameTimeGL s3 - m_firstFrameTimeGL s3 > 0.01
          then emit (Log ''Frame rate = '') s3 else s3
     else s1)"

subsection \<open>Consumer: the composite pass\<close>

text \<open>
  The body of the branch of \<^verbatim>\<open>onPaint\<close> that holds the interop lock (lines 502-553):
  blit or textured quad for render target \<open>t\<close>, then the unlock.
\<close>

definition composite :: "Env \<Rightarrow> RenderTarget \<Rightarrow> Quadifier \<Rightarrow> Quadifier" where
  "composite env t s =
    (let mustUseBlit = (\<not> matchOriginalMSAA env);
         s1 =
           (if \<not> useTexture env \<or> mustUseBlit then
              emit (GL_BlitFramebuffer (frameBuffer t) (m_width s) (m_height s))
                (emit (Call ''glBindFramebuffer GL_READ_FRAMEBUFFER'') s)
            else
              let s' = emit (GL_BindTexture (texture t)) s;
                  s'' = (if m_quadListGL s' = 0
                         then emit (Call ''glNewList ... glEndList'')
                                (s'\<lparr>m_quadListGL := glGenLists env\<rparr>)
                         else s')
              in if m_quadListGL s'' \<noteq> 0
                 then emit (GL_CallList (m_quadListGL s'')) s'' else s'')
     in emit (GL_UnlockObject (object t)) s1)"

text \<open>
  One iteration of the loop \<^verbatim>\<open>for (int eye=0; eye<2; ++eye)\<close> of \<^verbatim>\<open>onPaint\<close>
  (lines 483-562). The first component of the result is \<open>True\<close> when the iteration ends
  in \<^verbatim>\<open>break\<close>.
\<close>

definition paint_eye :: "Env \<Rightarrow> nat \<Rightarrow> Quadifier \<Rightarrow> error + (bool \<times> Quadifier)" where
  "paint_eye env eye s =
    (if \<not> m_readBuffer s < length (m_target s) then Inl IndexOutOfRange
     else
       let t = m_target s ! m_readBuffer s;
           label = drawBuffer t;
           s1 = logIf (Log_verbose env) ''GL: render '' s;
           s2 = emit (GL_DrawBuffer label) s1;
           s3 = (if object t \<noteq> 0 then
                   (let s' = emit (GL_LockObject (object t)) s2 in
                    if wglDXLockObjectsNV_ok env eye then composite env t s'
                    else emit (Log ''unable to lock DX target on paint'') s')
                 else emit (Log ''unable to lock DX target on paint'') s2);
           s4 = s3\<lparr>m_readBuffer := (m_readBuffer s3 + 1) mod length (m_target s3)\<rparr>
       in Inr (label \<noteq> GL_BACK_LEFT, s4))"

text \<open>The loop, from the value \<open>eye\<close> of its counter on.\<close>

function paint_loop :: "Env \<Rightarrow> nat \<Rightarrow> Quadifier \<Rightarrow> error + Quadifier" where
  "paint_loop env eye s =
    (if eye < 2 then
       (case paint_eye env eye s of
          Inl e \<Rightarrow> Inl e
        | Inr (stop, s') \<Rightarrow> if stop then Inr s' else paint_loop env (eye + 1) s')
     else Inr s)"
  by pat_completeness auto
termination
  by (relation "measure (\<lambda>(env, eye, s). 2 - eye)") auto

declare paint_loop.simps [simp del]

text \<open>\<^verbatim>\<open>Quadifier::drawStereoIndicator\<close> (lines 639-681): OpenGL calls only.\<close>

definition drawStereoIndicator :: "Quadifier \<Rightarrow> Quadifier" where
  "drawStereoIndicator s =
    (let s1 = emit (Call ''glPushAttrib, projection and modelview set-up'') s;
         s2 = emit (Call ''glRecti blue'') (emit (GL_DrawBuffer GL_BACK_LEFT) s1);
         s3 = emit (Call ''glRecti red'') (emit (GL_DrawBuffer GL_BACK_RIGHT) s2)
     in emit (Call ''glPopMatrix, glPopMatrix, glPopAttrib'') s3)"

text \<open>The part of \<^verbatim>\<open>onPaint\<close> before the loop (lines 462-481).\<close>

definition paint_begin :: "Env \<Rightarrow> Quadifier \<Rightarrow> Quadifier" where
  "paint_begin env s =
    (let s1 = emit (Call ''glBindFramebuffer GL_DRAW_FRAMEBUFFER 0'') s;
         s2 = emit (Call ''glPushAttrib'') s1;
         s3 = (if useTexture env then emit (Call ''glEnable GL_TEXTURE_2D, glColor3f'') s2
               else s2)
     in logIf (Log_verbose env) ''GL: rendering stereo frame'' s3)"

text \<open>The part of \<^verbatim>\<open>onPaint\<close> after the loop (lines 565-591).\<close>

definition paint_end :: "Env \<Rightarrow> Quadifier \<Rightarrow> Quadifier" where
  "paint_end env s =
    (let s1 = emit (Call ''glPopAttrib'') s;
         s2 = (if stereoIndicator env then drawStereoIndicator s1 else s1);
         s3 = emit Window_swapBuffers s2;
         s4 = emit FrameDone_signal s3;
         s5 = logIf (Log_verbose env) ''GLSWAP'' s4
     in
     if m_stereoMode s5 then
       (let s6 = (if m_framesGL s5 = 0 then s5\<lparr>m_firstFrameTimeGL := getTime env\<rparr>
                  else s5\<lparr>m_lastFrameTimeGL := getTime env\<rparr>)
        in s6\<lparr>m_framesGL := m_framesGL s6 + 1\<rparr>)
     else s5)"

text \<open>\<^verbatim>\<open>Quadifier::onPaint\<close> (lines 460-592).\<close>

definition onPaint :: "Env \<Rightarrow> Quadifier \<Rightarrow> error + Quadifier" where
  "onPaint env s =
    (case paint_loop env 0 (paint_begin env s) of
       Inl e \<Rightarrow> Inl e
     | Inr s' \<Rightarrow> Inr (paint_end env s'))"

subsection \<open>Consumer: window messages and the thread\<close>

text \<open>
  \<^verbatim>\<open>Quadifier::redraw\<close> (lines 630-635). \<^verbatim>\<open>GLWindow\<close> is not among the sources; the paint
  that its \<^verbatim>\<open>update\<close> asks the window for arrives as a \<^verbatim>\<open>WM_PAINT\<close> message and is a step
  of its own in this model.
\<close>

definition redraw :: "Quadifier \<Rightarrow> Quadifier" where
  "redraw s = emit Window_update (emit Window_invalidate s)"

text \<open>\<^verbatim>\<open>Quadifier::onResize\<close> (lines 596-602) and \<^verbatim>\<open>Quadifier::onIdle\<close> (lines 624-626).\<close>

definition onResize :: "DWORD \<Rightarrow> DWORD \<Rightarrow> Quadifier \<Rightarrow> Quadifier" where
  "onResize w h s = redraw ((emit (GL_Viewport w h) s)\<lparr>m_width := w, m_height := h\<rparr>)"

definition onIdle :: "Quadifier \<Rightarrow> Quadifier" where
  "onIdle s = s"

text \<open>
  The messages \<^verbatim>\<open>Quadifier::windowProc\<close> (lines 685-734) tells apart: \<open>WM_forwarded\<close>
  stands for the close, key and mouse messages that it posts on to the source window,
  \<open>WM_other\<close> for every message left to \<^verbatim>\<open>DefWindowProc\<close>. \<open>WM_SIZE\<close> carries the low and
  the high word of \<^verbatim>\<open>lParam\<close>.
\<close>

datatype message =
    WM_DESTROY
  | WM_USER_NEWFRAME
  | WM_PAINT
  | WM_SIZE DWORD DWORD
  | WM_forwarded
  | WM_other

fun windowProc :: "Env \<Rightarrow> message \<Rightarrow> Quadifier \<Rightarrow> error + Quadifier" where
  "windowProc env WM_DESTROY s = Inr (onDestroy env s)"
| "windowProc env WM_USER_NEWFRAME s = Inr (redraw s)"
| "windowProc env WM_PAINT s =
     (case onPaint env (emit (Call ''BeginPaint'') s) of
        Inl e \<Rightarrow> Inl e
      | Inr s' \<Rightarrow> Inr (emit (Call ''EndPaint'') s'))"
| "windowProc env (WM_SIZE w h) s = Inr (onResize w h s)"
| "windowProc env WM_forwarded s = Inr (emit (PostMessage_forward (m_sourceWindow s)) s)"
| "windowProc env WM_other s = Inr (emit (Call ''DefWindowProc'') s)"

text \<open>
  \<^verbatim>\<open>Quadifier::threadFunc\<close> (lines 804-934), the body of the consumer thread, for a
  non-null \<^verbatim>\<open>context\<close> (\<^verbatim>\<open>startRenderThread\<close> passes \<^verbatim>\<open>this\<close>). The message loop of lines
  915-923 is the single event \<open>RunMessageLoop\<close>: the messages it dispatches reach the
  object through \<open>windowProc\<close>, as steps of their own.
\<close>

definition threadFunc :: "Env \<Rightarrow> Quadifier \<Rightarrow> Quadifier" where
  "threadFunc env s =
    (let ge = gl_env env;
         s1 = logIf (Log_info env) ''GL rendering thread started'' s;
         s2 = emit (Call ''subclass source window (WindowProcSource)'') s1;
         desiredSamples = (if matchOriginalMSAA env then m_samplesDX s2 else 0);
         s3 = (if matchOriginalMSAA env
               then logIf (Log_info env) ''matchOriginalMSAA is ENABLED'' s2
               else logIf (Log_info env) ''matchOriginalMSAA is DISABLED'' s2);
         s4 = emit (Call ''GLWindow::create'') s3
     in
     if \<not> window_create ge
     then emit EndThread (emit (Log ''error: failed to create OpenGL window'') s4)
     else
       let s5 = (if window_getSamples ge \<noteq> desiredSamples
                 then emit (Log ''warning: unable to create OpenGL window with '') s4
                 else s4);
           (success, s6) = onCreate env s5;
           s7 = (if success then
                   logIf (Log_info env) ''WM_QUIT''
                     (emit RunMessageLoop (emit Window_show s6))
                 else
                   emit (PostMessage_QUIT (m_sourceWindow s6))
                     (emit (Log ''Failed when initialising OpenGL resources: exiting'') s6))
       in emit EndThread s7)"

subsection \<open>The object as a state machine\<close>

text \<open>
  The calls that reach a \<^verbatim>\<open>Quadifier\<close> after its construction: the five events of the
  Direct3D proxy on the producer thread, and on the consumer thread the thread body and
  the window messages. One call is one step; each is given the answers of its
  environment.
\<close>

datatype call =
    OnCreateDX
  | OnPreClearDX
  | OnPostClearDX
  | OnPrePresentDX
  | OnPostPresentDX
  | OnPreSetViewportDX "D3DVIEWPORT9 option"
  | ThreadFunc
  | WindowProc message
  | OnIdle

fun step :: "Env \<Rightarrow> call \<Rightarrow> Quadifier \<Rightarrow> error + Quadifier" where
  "step env OnCreateDX s = Inr (onCreateDX s)"
| "step env OnPreClearDX s = onPreClearDX env s"
| "step env OnPostClearDX s = Inr (onPostClearDX s)"
| "step env OnPrePresentDX s = onPrePresentDX env s"
| "step env OnPostPresentDX s = Inr (onPostPresentDX env s)"
| "step env (OnPreSetViewportDX pViewport) s =
     (case onPreSetViewportDX env pViewport s of
        Inl e \<Rightarrow> Inl e
      | Inr (passOn, s') \<Rightarrow> Inr s')"
| "step env ThreadFunc s = Inr (threadFunc env s)"
| "step env (WindowProc msg) s = windowProc env msg s"
| "step env OnIdle s = Inr (onIdle s)"

text \<open>A session: the calls in the order they arrive, until one ends the process.\<close>

fun run :: "(Env \<times> call) list \<Rightarrow> Quadifier \<Rightarrow> error + Quadifier" where
  "run [] s = Inr s"
| "run ((env, c) # cs) s =
     (case step env c s of
        Inl e \<Rightarrow> Inl e
      | Inr s' \<Rightarrow> run cs s')"

subsection \<open>The state of the capture protocol\<close>

text \<open>
  The part of the object that the capture protocol is about: the mode flag, the two
  cursors and the labels of the slots; and the bounds that keep every access to the
  pool inside it. \<open>calls_endCapture\<close> tells which calls reach \<^verbatim>\<open>endCapture\<close>:
  \<^verbatim>\<open>onPrePresentDX\<close> (line 174) and, through \<^verbatim>\<open>onStereoSignal\<close> (line 618), a viewport
  call with the sentinel geometry.
\<close>

definition protocol_view :: "Quadifier \<Rightarrow> bool \<times> nat \<times> nat \<times> GLuint list" where
  "protocol_view s =
     (m_stereoMode s, m_drawBuffer s, m_readBuffer s, map drawBuffer (m_target s))"

definition pool_inv :: "Quadifier \<Rightarrow> bool" where
  "pool_inv s \<longleftrightarrow>
     length (m_target s) = poolSize \<and> m_drawBuffer s < poolSize \<and> m_readBuffer s < poolSize"

fun calls_endCapture :: "call \<Rightarrow> bool" where
  "calls_endCapture OnPrePresentDX = True"
| "calls_endCapture (OnPreSetViewportDX (Some vp)) = (X vp = 1 \<and> Width vp = 2 \<and> Height vp = 3)"
| "calls_endCapture c = False"

subsection \<open>The state of the lifecycle\<close>

text \<open>
  \<open>lifecycle_event\<close> keeps the events by which the consumer thread starts, shows its
  window, runs its message loop, asks the source window to quit, and ends;
  \<open>lifecycle_view\<close> adds the members that the lifecycle controller sets.

  \<open>slot_ok\<close> collects the tests of one pass of the loop of \<^verbatim>\<open>onCreate\<close> that end in
  \<^verbatim>\<open>break\<close> (lines 270, 278, 287-293, 305 and 314), and \<open>gl_setup_ok\<close> adds the two
  tests before the loop (lines 245 and 253), for a pool of \<open>n\<close> slots.
\<close>

fun lifecycle_event :: "event \<Rightarrow> bool" where
  "lifecycle_event BeginThread = True"
| "lifecycle_event EndThread = True"
| "lifecycle_event RunMessageLoop = True"
| "lifecycle_event Window_show = True"
| "lifecycle_event (PostMessage_QUIT window) = True"
| "lifecycle_event e = False"

definition lifecycle_view :: "Quadifier \<Rightarrow> bool \<times> pointer \<times> pointer \<times> event list" where
  "lifecycle_view s =
     (m_initialised s, m_thread s, m_sourceWindow s, filter lifecycle_event (trace s))"

definition slot_ok :: "Env \<Rightarrow> nat \<Rightarrow> bool" where
  "slot_ok env i \<longleftrightarrow>
     (if useTexture env then glGenTextures (gl_env env) i \<noteq> 0
      else glGenRenderbuffers (gl_env env) i \<noteq> 0)
     \<and> have_wglDXSetResourceShareHandleNV (gl_env env)
     \<and> wglDXRegisterObjectNV (gl_env env) i \<noteq> 0
     \<and> glGenFramebuffers (gl_env env) i \<noteq> 0"


subsection \<open>The frame-done event\<close>

text \<open>
  Modelled from the spec: the bounded wait of \<^verbatim>\<open>m_frameDone\<close>. The class of
  \<^verbatim>\<open>m_frameDone\<close> (its \<^verbatim>\<open>wait\<close> and \<^verbatim>\<open>signal\<close>) is not among the sources; the spec says
  the producer "blocks on a frame consumed wait with a bounded timeout" and that a
  timeout "simply allows the producer to proceed". \<open>Event_wait timeout consumer\<close> is
  the time in milliseconds for which a wait with that timeout blocks, when the signal
  comes \<open>t\<close> milliseconds after the wait began (\<open>consumer = Some t\<close>) or never
  (\<open>consumer = None\<close>).
\<close>

definition Event_wait :: "nat \<Rightarrow> nat option \<Rightarrow> nat" where
  "Event_wait timeout consumer =
     (case consumer of None \<Rightarrow> timeout | Some t \<Rightarrow> min t timeout)"

text \<open>The time for which the waits recorded in a trace block the calling thread.\<close>

fun blocked_ms :: "nat option \<Rightarrow> event \<Rightarrow> nat" where
  "blocked_ms consumer (FrameDone_wait timeout) = Event_wait timeout consumer"
| "blocked_ms consumer e = 0"

definition producer_blocked :: "nat option \<Rightarrow> event list \<Rightarrow> nat" where
  "producer_blocked consumer evs = sum_list (map (blocked_ms consumer) evs)"

subsection \<open>Observations on traces\<close>

text \<open>
  Projections of a trace, used to state what a function called and in which order;
  \<open>final_trace\<close> is the trace of the state with which a call or a session returned.
  \<open>pass_event\<close> keeps the draw buffer selections, the buffer swap and the frame-done
  signal; \<open>lock_event\<close> keeps the interop locks and unlocks and the log line of a
  failed lock; \<open>draw_event\<close> keeps the blit and the texture binding with which a
  render target is drawn to the display; \<open>device_event\<close> keeps the calls on the Direct3D device that
  \<^verbatim>\<open>beginCapture\<close> makes. \<open>slot_locks\<close> lists the lock events of one iteration of the composite
  loop on render target \<open>t\<close>, by the three ways the condition of line 497 can go, and
  \<open>slot_draws\<close> its draw events (lines 503-519).
\<close>

fun pass_event :: "event \<Rightarrow> bool" where
  "pass_event (GL_DrawBuffer label) = True"
| "pass_event Window_swapBuffers = True"
| "pass_event FrameDone_signal = True"
| "pass_event e = False"

fun lock_event :: "event \<Rightarrow> bool" where
  "lock_event (GL_LockObject obj) = True"
| "lock_event (GL_UnlockObject obj) = True"
| "lock_event (Log msg) = (msg = ''unable to lock DX target on paint'')"
| "lock_event e = False"

fun final_trace :: "error + Quadifier \<Rightarrow> event list" where
  "final_trace (Inl e) = []"
| "final_trace (Inr s) = trace s"

fun draw_event :: "event \<Rightarrow> bool" where
  "draw_event (GL_BlitFramebuffer fb w h) = True"
| "draw_event (GL_BindTexture tex) = True"
| "draw_event e = False"

fun device_event :: "event \<Rightarrow> bool" where
  "device_event D3D_GetViewport = True"
| "device_event (D3D_SetRenderTarget index surf) = True"
| "device_event (D3D_SetViewport viewport) = True"
| "device_event e = False"

definition slot_locks :: "Env \<Rightarrow> nat \<Rightarrow> RenderTarget \<Rightarrow> event list" where
  "slot_locks env eye t =
     (if object t = 0 then [Log ''unable to lock DX target on paint'']
      else if wglDXLockObjectsNV_ok env eye
      then [GL_LockObject (object t), GL_UnlockObject (object t)]
      else [GL_LockObject (object t), Log ''unable to lock DX target on paint''])"

definition slot_draws :: "Env \<Rightarrow> nat \<Rightarrow> DWORD \<Rightarrow> DWORD \<Rightarrow> RenderTarget \<Rightarrow> event list" where
  "slot_draws env eye w h t =
     (if object t \<noteq> 0 \<and> wglDXLockObjectsNV_ok env eye then
        (if \<not> useTexture env \<or> \<not> matchOriginalMSAA env
         then [GL_BlitFramebuffer (frameBuffer t) w h]
         else [GL_BindTexture (texture t)])
      else [])"

text \<open>
  \<open>composite_event\<close> keeps every call of a composite pass that selects a draw buffer,
  locks or unlocks an interop object, draws a render target (the blit, or the texture
  binding and the call of the display list of the quad), swaps the buffers or raises the
  frame-done signal, and the log line of a failed lock: the order of all of them, in
  one list. \<open>slot_pass\<close> lists these events for one iteration of the composite loop on
  render target \<open>t\<close> (lines 486-554), when the display list is \<open>quadList\<close> before the
  iteration; \<open>slot_composite\<close> is its part between lock and unlock (lines 502-546),
  \<open>quadList_used\<close> the display list that the texture path calls (lines 526-545) and
  \<open>quadList_after\<close> the value of \<^verbatim>\<open>m_quadListGL\<close> after the iteration.
\<close>

fun composite_event :: "event \<Rightarrow> bool" where
  "composite_event (GL_DrawBuffer label) = True"
| "composite_event (GL_LockObject obj) = True"
| "composite_event (GL_UnlockObject obj) = True"
| "composite_event (Log msg) = (msg = ''unable to lock DX target on paint'')"
| "composite_event (GL_BlitFramebuffer fb w h) = True"
| "composite_event (GL_BindTexture tex) = True"
| "composite_event (GL_CallList list) = True"
| "composite_event Window_swapBuffers = True"
| "composite_event FrameDone_signal = True"
| "composite_event e = False"

definition quadList_used :: "Env \<Rightarrow> GLuint \<Rightarrow> GLuint" where
  "quadList_used env quadList = (if quadList = 0 then glGenLists env else quadList)"

definition slot_composite :: "Env \<Rightarrow> DWORD \<Rightarrow> DWORD \<Rightarrow> GLuint \<Rightarrow> RenderTarget \<Rightarrow> event list" where
  "slot_composite env w h quadList t =
     (if \<not> useTexture env \<or> \<not> matchOriginalMSAA env
      then [GL_BlitFramebuffer (frameBuffer t) w h]
      else GL_BindTexture (texture t)
           # (if quadList_used env quadList \<noteq> 0
              then [GL_CallList (quadList_used env quadList)] else []))"

definition slot_pass :: "Env \<Rightarrow> nat \<Rightarrow> DWORD \<Rightarrow> DWORD \<Rightarrow> GLuint \<Rightarrow> RenderTarget \<Rightarrow> event list" where
  "slot_pass env eye w h quadList t =
     GL_DrawBuffer (drawBuffer t)
     # (if object t = 0 then [Log ''unable to lock DX target on paint'']
        else GL_LockObject (object t)
             # (if wglDXLockObjectsNV_ok env eye
                then slot_composite env w h quadList t @ [GL_UnlockObject (object t)]
                else [Log ''unable to lock DX target on paint'']))"

definition quadList_after :: "Env \<Rightarrow> nat \<Rightarrow> GLuint \<Rightarrow> RenderTarget \<Rightarrow> GLuint" where
  "quadList_after env eye quadList t =
     (if object t \<noteq> 0 \<and> wglDXLockObjectsNV_ok env eye
         \<and> useTexture env \<and> matchOriginalMSAA env
      then quadList_used env quadList else quadList)"

subsection \<open>Sample inputs\<close>

text \<open>
  A quiet environment in which every call succeeds, and variations of it, for
  evaluating the functions above on concrete states.
\<close>

definition sample_viewport :: D3DVIEWPORT9 where
  "sample_viewport = \<lparr>X = 0, Y = 0, Width = 640, Height = 480, MinZ = 0, MaxZ = 0x3F800000\<rparr>"

definition sentinel_viewport :: D3DVIEWPORT9 where
  "sentinel_viewport = \<lparr>X = 1, Y = 0, Width = 2, Height = 3, MinZ = 0, MaxZ = 0x3F800000\<rparr>"

definition sample_desc :: D3DSURFACE_DESC where
  "sample_desc = \<lparr>desc_Format = 22, desc_MultiSampleType = 0, desc_Width = 640, desc_Height = 480\<rparr>"

definition always :: "nat \<Rightarrow> bool" where
  "always i = True"

definition never :: "nat \<Rightarrow> bool" where
  "never i = False"

definition first_fails :: "nat \<Rightarrow> bool" where
  "first_fails i = (i \<noteq> 0)"

definition slot_handle :: "32 word \<Rightarrow> nat \<Rightarrow> 32 word" where
  "slot_handle base i = base + of_nat i"


definition sample_surfaces :: "nat \<Rightarrow> (pointer \<times> pointer) option" where
  "sample_surfaces i = Some (slot_handle 0x100 i, slot_handle 0x200 i)"

definition sample_status :: "nat \<Rightarrow> GLenum" where
  "sample_status i = GL_FRAMEBUFFER_COMPLETE"

definition sample_create_env :: CreateEnv where
  "sample_create_env =
     \<lparr>tmpWindow_getSamples = Some 0, hFocusWindow = 0x50,
      GetAdapterDisplayMode = Some 22, cr_GetRenderTarget = Some 0x60,
      cr_GetDesc = Some sample_desc, cr_GetViewport = Some sample_viewport,
      GetDepthStencilSurface = True, depth_GetDesc = True,
      CreateRenderTarget = sample_surfaces,
      backBuffer_GetRenderTarget = Some 0x60, beginthreadex = 0x70\<rparr>"

definition sample_gl_env :: GLEnv where
  "sample_gl_env =
     \<lparr>window_create = True, window_getSamples = 0, glx_load = True,
      wglDXOpenDeviceNV = 0x80,
      glGenTextures = slot_handle 1, glGenRenderbuffers = slot_handle 1,
      have_wglDXSetResourceShareHandleNV = True,
      wglDXRegisterObjectNV = slot_handle 0x300,
      glGenFramebuffers = slot_handle 1,
      attach_lock_ok = always, attach_unlock_ok = always,
      glCheckFramebufferStatus = sample_status\<rparr>"

definition sample_env :: Env where
  "sample_env =
     \<lparr>Log_info = False, Log_verbose = False, useTexture = False,
      matchOriginalMSAA = False, stereoIndicator = False,
      GetViewport = Some sample_viewport, SetRenderTarget_ok = True,
      GetRenderTarget = Some 0x60, GetDesc = True,
      wglDXLockObjectsNV_ok = always, glGenLists = 1, getTime = 0,
      create_env = sample_create_env, gl_env = sample_gl_env\<rparr>"

definition viewport_query_fails :: Env where
  "viewport_query_fails = sample_env\<lparr>GetViewport := None\<rparr>"

definition redirect_fails :: Env where
  "redirect_fails = sample_env\<lparr>SetRenderTarget_ok := False\<rparr>"

definition no_lock :: Env where
  "no_lock = sample_env\<lparr>wglDXLockObjectsNV_ok := never\<rparr>"

definition first_lock_fails :: Env where
  "first_lock_fails = sample_env\<lparr>wglDXLockObjectsNV_ok := first_fails\<rparr>"


text \<open>The settings with which a render target is drawn as a textured quad.\<close>

definition textured :: Env where
  "textured = sample_env\<lparr>useTexture := True, matchOriginalMSAA := True\<rparr>"

text \<open>The object right after construction, and with its two slots filled in.\<close>

definition fresh :: Quadifier where
  "fresh = Quadifier_new 0x10 0x20 True"

definition sample_slot :: "nat \<Rightarrow> GLenum \<Rightarrow> RenderTarget" where
  "sample_slot i label =
     \<lparr>surface = slot_handle 0x100 i, shareHandle = slot_handle 0x200 i, texture = 0,
      renderBuffer = slot_handle 1 i, frameBuffer = slot_handle 1 i,
      object = slot_handle 0x300 i, drawBuffer = label\<rparr>"

definition ready :: "GLenum \<Rightarrow> GLenum \<Rightarrow> Quadifier" where
  "ready label0 label1 =
     fresh\<lparr>m_target := [sample_slot 0 label0, sample_slot 1 label1],
           m_initialised := True, m_thread := 0x70, m_interopGLDX := 0x80,
           m_width := 640, m_height := 480, m_presentedTargets := {0x60},
           trace := []\<rparr>"

text \<open>The same object when the slots were set up with textures (\<^verbatim>\<open>useTexture\<close>).\<close>

definition textured_slot :: "nat \<Rightarrow> GLenum \<Rightarrow> RenderTarget" where
  "textured_slot i label =
     \<lparr>surface = slot_handle 0x100 i, shareHandle = slot_handle 0x200 i,
      texture = slot_handle 1 i, renderBuffer = 0, frameBuffer = slot_handle 1 i,
      object = slot_handle 0x300 i, drawBuffer = label\<rparr>"

definition ready_textured :: "GLenum \<Rightarrow> GLenum \<Rightarrow> Quadifier" where
  "ready_textured label0 label1 =
     (ready label0 label1)\<lparr>m_target := [textured_slot 0 label0, textured_slot 1 label1]\<rparr>"

text \<open>
  A session from the constructor on: a first frame is cleared and presented, the clear
  of the second frame creates the resources and starts the consumer thread, the thread
  sets OpenGL up, and the window is painted twice before the second frame is presented.
\<close>

definition early_paints :: "(Env \<times> call) list" where
  "early_paints =
     [(sample_env, OnPreClearDX), (sample_env, OnPrePresentDX), (sample_env, OnPostPresentDX),
      (sample_env, OnPreClearDX), (sample_env, ThreadFunc),
      (sample_env, WindowProc WM_PAINT), (sample_env, WindowProc WM_PAINT)]"

text \<open>
  The states that session passes through: after the first frame, after the clear of
  the second frame, and after the consumer thread has set OpenGL up.
\<close>

definition presented_once :: Quadifier where
  "presented_once =
     fresh\<lparr>m_target := [RenderTarget_new\<lparr>drawBuffer := GL_BACK\<rparr>, RenderTarget_new],
           m_drawBuffer := 1,
           m_presentedTargets := {0x60},
           trace := [Call ''Log::setLevel'', SendNotifyMessage_NEWFRAME, FrameDone_wait 1000]\<rparr>"

definition capturing :: Quadifier where
  "capturing =
     presented_once\<lparr>m_target :=
         [\<lparr>surface = 0x100, shareHandle = 0x200, texture = 0, renderBuffer = 0,
           frameBuffer = 0, object = 0, drawBuffer = GL_BACK\<rparr>,
          \<lparr>surface = 0x101, shareHandle = 0x201, texture = 0, renderBuffer = 0,
           frameBuffer = 0, object = 0, drawBuffer = GL_NONE\<rparr>],
       m_backBuffer := 0x60, m_thread := 0x70, m_sourceWindow := 0x50,
       m_width := 640, m_height := 480, m_initialised := True,
       trace := [Call ''Log::setLevel'', SendNotifyMessage_NEWFRAME, FrameDone_wait 1000,
         Call ''GLWindow::create (temporary)'', Call ''GLWindow::destroy (temporary)'',
         Log ''DX render target surface format: '',
         D3D_CreateRenderTarget 0 640 480 22 0, D3D_CreateRenderTarget 1 640 480 22 0,
         D3D_GetRenderTarget_backBuffer, BeginThread, D3D_GetViewport,
         D3D_SetRenderTarget 0 0x101, D3D_SetViewport sample_viewport]\<rparr>"

definition consumer_ready :: Quadifier where
  "consumer_ready =
     capturing\<lparr>m_target :=
         [\<lparr>surface = 0x100, shareHandle = 0x200, texture = 0, renderBuffer = 1,
           frameBuffer = 1, object = 0x300, drawBuffer = GL_BACK\<rparr>,
          \<lparr>surface = 0x101, shareHandle = 0x201, texture = 0, renderBuffer = 2,
           frameBuffer = 2, object = 0x301, drawBuffer = GL_NONE\<rparr>],
       m_interopGLDX := 0x80,
       trace := trace capturing @
         [Call ''subclass source window (WindowProcSource)'',
          Call ''GLWindow::create'', Call ''wglDXOpenDeviceNV'',
          Call ''wglDXSetResourceShareHandleNV'', Call ''wglDXRegisterObjectNV'',
          Call ''glBindFramebuffer GL_FRAMEBUFFER'', GL_LockObject 0x300,
          Call ''glFramebufferRenderbuffer'', GL_UnlockObject 0x300,
          Call ''glBindRenderbuffer'', Call ''glBindRenderbuffer 0'',
          Call ''wglDXSetResourceShareHandleNV'', Call ''wglDXRegisterObjectNV'',
          Call ''glBindFramebuffer GL_FRAMEBUFFER'', GL_LockObject 0x301,
          Call ''glFramebufferRenderbuffer'', GL_UnlockObject 0x301,
          Call ''glBindRenderbuffer'', Call ''glBindRenderbuffer 0'',
          Call ''default OpenGL settings and viewing system'', Window_show,
          RunMessageLoop, EndThread]\<rparr>"



section \<open>Properties\<close>

subsection \<open>Arithmetic of the cursors\<close>

lemma next_cursor_inside: "i < n \<Longrightarrow> (i + 1) mod n < (n::nat)"
  by (cases "n = 0") simp_all

subsection \<open>The capture functions, evaluated\<close>

lemma endCapture_eq:
  assumes "m_drawBuffer s < length (m_target s)"
  shows "endCapture env label s =
     Inr (s\<lparr>m_target := (m_target s)
               [m_drawBuffer s := (m_target s ! m_drawBuffer s)\<lparr>drawBuffer := label\<rparr>],
            m_drawBuffer := (m_drawBuffer s + 1) mod length (m_target s),
            m_framesDX := (if m_stereoMode s then m_framesDX s + 1 else m_framesDX s),
            trace := trace s @ (if Log_verbose env then [Log ''endCapture ''] else [])\<rparr>)"
  using assms by (simp add: endCapture_def Let_def logIf_def emit_def)

lemma beginCapture_eq:
  assumes "m_drawBuffer s < length (m_target s)"
  shows "beginCapture env s =
      (if \<not> SetRenderTarget_ok env then Inl (ProcessExit 1)
       else Inr (s\<lparr>trace := trace s
              @ (if Log_verbose env then [Log ''beginCapture''] else [])
              @ [D3D_GetViewport]
              @ (if Log_verbose env then [Log ''SetRenderTarget(''] else [])
              @ [D3D_SetRenderTarget 0 (surface (m_target s ! m_drawBuffer s))]
              @ (case GetViewport env of
                   Some viewport \<Rightarrow> [D3D_SetViewport viewport]
                 | None \<Rightarrow> [])\<rparr>))"
  using assms
  by (simp add: beginCapture_def Let_def logIf_def emit_def split: option.splits)

lemma onStereoSignal_seq:
  "onStereoSignal env s =
     (case endCapture env GL_BACK_LEFT
             (s\<lparr>m_stereoMode := True,
                trace := trace s
                  @ (if Log_verbose env then [Log ''stereo signal''] else [])
                  @ (if \<not> m_stereoMode s \<and> Log_info env then [Log ''Stereo enabled'']
                     else [])\<rparr>) of
        Inl e \<Rightarrow> Inl e
      | Inr s1 \<Rightarrow> beginCapture env s1)"
proof -
  have "(let s1 = logIf (Log_verbose env) ''stereo signal'' s
         in if \<not> m_stereoMode s1
            then logIf (Log_info env) ''Stereo enabled'' (s1\<lparr>m_stereoMode := True\<rparr>)
            else s1)
      = s\<lparr>m_stereoMode := True,
           trace := trace s
             @ (if Log_verbose env then [Log ''stereo signal''] else [])
             @ (if \<not> m_stereoMode s \<and> Log_info env then [Log ''Stereo enabled'']
                else [])\<rparr>"
    by (cases "m_stereoMode s") (simp_all add: Let_def logIf_def emit_def)
  then show ?thesis
    by (simp add: onStereoSignal_def Let_def)
qed

lemma onStereoSignal_eq:
  assumes "m_drawBuffer s < length (m_target s)"
  shows "onStereoSignal env s =
     (if \<not> SetRenderTarget_ok env then Inl (ProcessExit 1)
      else Inr (s\<lparr>m_stereoMode := True,
            m_target := (m_target s)
               [m_drawBuffer s := (m_target s ! m_drawBuffer s)\<lparr>drawBuffer := GL_BACK_LEFT\<rparr>],
            m_drawBuffer := (m_drawBuffer s + 1) mod length (m_target s),
            m_framesDX := m_framesDX s + 1,
            trace := trace s
              @ (if Log_verbose env then [Log ''stereo signal''] else [])
              @ (if \<not> m_stereoMode s \<and> Log_info env then [Log ''Stereo enabled''] else [])
              @ (if Log_verbose env then [Log ''endCapture ''] else [])
              @ (if Log_verbose env then [Log ''beginCapture''] else [])
              @ [D3D_GetViewport]
              @ (if Log_verbose env then [Log ''SetRenderTarget(''] else [])
              @ [D3D_SetRenderTarget 0
                   (surface ((m_target s)
                      [m_drawBuffer s := (m_target s ! m_drawBuffer s)\<lparr>drawBuffer := GL_BACK_LEFT\<rparr>]
                      ! ((m_drawBuffer s + 1) mod length (m_target s))))]
              @ (case GetViewport env of
                   Some viewport \<Rightarrow> [D3D_SetViewport viewport]
                 | None \<Rightarrow> [])\<rparr>))"
proof -
  let ?flagged = "s\<lparr>m_stereoMode := True,
       trace := trace s
         @ (if Log_verbose env then [Log ''stereo signal''] else [])
         @ (if \<not> m_stereoMode s \<and> Log_info env then [Log ''Stereo enabled''] else [])\<rparr>"
  have inside: "m_drawBuffer ?flagged < length (m_target ?flagged)"
    using assms by simp
  have next_inside: "Suc (m_drawBuffer s) mod length (m_target s) < length (m_target s)"
    using next_cursor_inside [OF assms] by simp
  show ?thesis
    unfolding onStereoSignal_seq endCapture_eq [OF inside]
    by (simp add: beginCapture_eq next_inside)
qed

subsection \<open>The composite pass, evaluated\<close>

lemma composite_props:
  "m_target (composite env t s) = m_target s
   \<and> m_readBuffer (composite env t s) = m_readBuffer s
   \<and> m_drawBuffer (composite env t s) = m_drawBuffer s
   \<and> m_stereoMode (composite env t s) = m_stereoMode s
   \<and> m_framesGL (composite env t s) = m_framesGL s
   \<and> m_width (composite env t s) = m_width s
   \<and> m_height (composite env t s) = m_height s
   \<and> filter pass_event (trace (composite env t s)) = filter pass_event (trace s)
   \<and> filter lock_event (trace (composite env t s))
        = filter lock_event (trace s) @ [GL_UnlockObject (object t)]
   \<and> filter draw_event (trace (composite env t s))
        = filter draw_event (trace s)
          @ (if \<not> useTexture env \<or> \<not> matchOriginalMSAA env
             then [GL_BlitFramebuffer (frameBuffer t) (m_width s) (m_height s)]
             else [GL_BindTexture (texture t)])"
  by (simp add: composite_def Let_def emit_def)

lemma paint_eye_props:
  assumes "m_readBuffer s < length (m_target s)"
  shows "\<exists>s'. paint_eye env eye s
          = Inr (drawBuffer (m_target s ! m_readBuffer s) \<noteq> GL_BACK_LEFT, s')
     \<and> m_readBuffer s' = (m_readBuffer s + 1) mod length (m_target s)
     \<and> m_target s' = m_target s
     \<and> m_drawBuffer s' = m_drawBuffer s
     \<and> m_stereoMode s' = m_stereoMode s
     \<and> m_framesGL s' = m_framesGL s
     \<and> m_width s' = m_width s
     \<and> m_height s' = m_height s
     \<and> filter pass_event (trace s')
         = filter pass_event (trace s) @ [GL_DrawBuffer (drawBuffer (m_target s ! m_readBuffer s))]
     \<and> filter lock_event (trace s')
         = filter lock_event (trace s) @ slot_locks env eye (m_target s ! m_readBuffer s)
     \<and> filter draw_event (trace s')
         = filter draw_event (trace s)
           @ slot_draws env eye (m_width s) (m_height s) (m_target s ! m_readBuffer s)"
  using assms
  by (simp add: paint_eye_def Let_def logIf_def emit_def composite_props slot_locks_def
      slot_draws_def)

lemma paint_loop_unrolled:
  "paint_loop env 0 s =
     (case paint_eye env 0 s of
        Inl e \<Rightarrow> Inl e
      | Inr (stop, s1) \<Rightarrow>
          if stop then Inr s1
          else (case paint_eye env (Suc 0) s1 of
                  Inl e \<Rightarrow> Inl e
                | Inr (stop', s2) \<Rightarrow> Inr s2))"
proof -
  have two: "paint_loop env (Suc (Suc 0)) q = Inr q" for q
    by (subst paint_loop.simps) simp
  have one: "paint_loop env (Suc 0) q =
      (case paint_eye env (Suc 0) q of Inl e \<Rightarrow> Inl e | Inr (stop', s2) \<Rightarrow> Inr s2)" for q
    by (subst paint_loop.simps) (simp add: two split: sum.splits)
  show ?thesis
    by (subst paint_loop.simps) (simp add: one split: sum.splits)
qed

lemma paint_begin_props:
  "m_target (paint_begin env s) = m_target s
   \<and> m_readBuffer (paint_begin env s) = m_readBuffer s
   \<and> m_drawBuffer (paint_begin env s) = m_drawBuffer s
   \<and> m_stereoMode (paint_begin env s) = m_stereoMode s
   \<and> m_framesGL (paint_begin env s) = m_framesGL s
   \<and> m_width (paint_begin env s) = m_width s
   \<and> m_height (paint_begin env s) = m_height s
   \<and> filter pass_event (trace (paint_begin env s)) = filter pass_event (trace s)
   \<and> filter lock_event (trace (paint_begin env s)) = filter lock_event (trace s)
   \<and> filter draw_event (trace (paint_begin env s)) = filter draw_event (trace s)"
  by (simp add: paint_begin_def Let_def logIf_def emit_def)

lemma paint_end_props:
  "m_target (paint_end env s) = m_target s
   \<and> m_readBuffer (paint_end env s) = m_readBuffer s
   \<and> m_drawBuffer (paint_end env s) = m_drawBuffer s
   \<and> m_stereoMode (paint_end env s) = m_stereoMode s
   \<and> m_framesGL (paint_end env s) = (if m_stereoMode s then m_framesGL s + 1 else m_framesGL s)
   \<and> filter pass_event (trace (paint_end env s))
       = filter pass_event (trace s)
         @ (if stereoIndicator env then [GL_DrawBuffer GL_BACK_LEFT, GL_DrawBuffer GL_BACK_RIGHT]
            else [])
         @ [Window_swapBuffers, FrameDone_signal]
   \<and> filter lock_event (trace (paint_end env s)) = filter lock_event (trace s)
   \<and> filter draw_event (trace (paint_end env s)) = filter draw_event (trace s)"
  by (simp add: paint_end_def drawStereoIndicator_def Let_def logIf_def emit_def)

lemma onPaint_props:
  assumes "m_readBuffer s < length (m_target s)"
  shows "\<exists>s'. onPaint env s = Inr s'
     \<and> m_target s' = m_target s
     \<and> m_drawBuffer s' = m_drawBuffer s
     \<and> m_stereoMode s' = m_stereoMode s
     \<and> m_framesGL s' = (if m_stereoMode s then m_framesGL s + 1 else m_framesGL s)
     \<and> m_readBuffer s' =
         (if drawBuffer (m_target s ! m_readBuffer s) = GL_BACK_LEFT
          then ((m_readBuffer s + 1) mod length (m_target s) + 1) mod length (m_target s)
          else (m_readBuffer s + 1) mod length (m_target s))
     \<and> filter pass_event (trace s')
         = filter pass_event (trace s)
           @ [GL_DrawBuffer (drawBuffer (m_target s ! m_readBuffer s))]
           @ (if drawBuffer (m_target s ! m_readBuffer s) = GL_BACK_LEFT
              then [GL_DrawBuffer (drawBuffer
                      (m_target s ! ((m_readBuffer s + 1) mod length (m_target s))))]
              else [])
           @ (if stereoIndicator env then [GL_DrawBuffer GL_BACK_LEFT, GL_DrawBuffer GL_BACK_RIGHT]
              else [])
           @ [Window_swapBuffers, FrameDone_signal]
     \<and> filter lock_event (trace s')
         = filter lock_event (trace s)
           @ slot_locks env 0 (m_target s ! m_readBuffer s)
           @ (if drawBuffer (m_target s ! m_readBuffer s) = GL_BACK_LEFT
              then slot_locks env 1
                     (m_target s ! ((m_readBuffer s + 1) mod length (m_target s)))
              else [])
     \<and> filter draw_event (trace s')
         = filter draw_event (trace s)
           @ slot_draws env 0 (m_width s) (m_height s) (m_target s ! m_readBuffer s)
           @ (if drawBuffer (m_target s ! m_readBuffer s) = GL_BACK_LEFT
              then slot_draws env 1 (m_width s) (m_height s)
                     (m_target s ! ((m_readBuffer s + 1) mod length (m_target s)))
              else [])"
proof -
  let ?b = "paint_begin env s"
  let ?r = "m_readBuffer s"
  let ?n = "length (m_target s)"
  have inside0: "m_readBuffer ?b < length (m_target ?b)"
    using assms by (simp add: paint_begin_props)
  from paint_eye_props [OF inside0, of env 0]
  obtain s1 where eye0: "paint_eye env 0 ?b
        = Inr (drawBuffer (m_target s ! ?r) \<noteq> GL_BACK_LEFT, s1)"
    and s1: "m_readBuffer s1 = (?r + 1) mod ?n" "m_target s1 = m_target s"
      "m_drawBuffer s1 = m_drawBuffer s" "m_stereoMode s1 = m_stereoMode s"
      "m_framesGL s1 = m_framesGL s"
      "filter pass_event (trace s1)
         = filter pass_event (trace s) @ [GL_DrawBuffer (drawBuffer (m_target s ! ?r))]"
      "filter lock_event (trace s1)
         = filter lock_event (trace s) @ slot_locks env 0 (m_target s ! ?r)"
      "m_width s1 = m_width s" "m_height s1 = m_height s"
      "filter draw_event (trace s1)
         = filter draw_event (trace s)
           @ slot_draws env 0 (m_width s) (m_height s) (m_target s ! ?r)"
    by (auto simp: paint_begin_props)
  show ?thesis
  proof (cases "drawBuffer (m_target s ! ?r) = GL_BACK_LEFT")
    case False
    then have "onPaint env s = Inr (paint_end env s1)"
      by (simp add: onPaint_def paint_loop_unrolled eye0)
    with False s1 show ?thesis
      by (simp add: paint_end_props)
  next
    case True
    have inside1: "m_readBuffer s1 < length (m_target s1)"
      using assms s1 by (simp add: next_cursor_inside [simplified])
    from paint_eye_props [OF inside1, of env "Suc 0"]
    obtain s2 where eye1: "paint_eye env (Suc 0) s1
          = Inr (drawBuffer (m_target s1 ! m_readBuffer s1) \<noteq> GL_BACK_LEFT, s2)"
      and s2: "m_readBuffer s2 = (m_readBuffer s1 + 1) mod length (m_target s1)"
        "m_target s2 = m_target s1"
        "m_drawBuffer s2 = m_drawBuffer s1" "m_stereoMode s2 = m_stereoMode s1"
        "m_framesGL s2 = m_framesGL s1"
        "filter pass_event (trace s2)
           = filter pass_event (trace s1)
             @ [GL_DrawBuffer (drawBuffer (m_target s1 ! m_readBuffer s1))]"
        "filter lock_event (trace s2)
           = filter lock_event (trace s1) @ slot_locks env (Suc 0) (m_target s1 ! m_readBuffer s1)"
        "filter draw_event (trace s2)
           = filter draw_event (trace s1)
             @ slot_draws env (Suc 0) (m_width s1) (m_height s1) (m_target s1 ! m_readBuffer s1)"
      by auto
    from True have "onPaint env s = Inr (paint_end env s2)"
      by (simp add: onPaint_def paint_loop_unrolled eye0 eye1)
    with True s1 s2 show ?thesis
      by (simp add: paint_end_props)
  qed
qed

lemma composite_order:
  "filter composite_event (trace (composite env t s))
     = filter composite_event (trace s)
       @ slot_composite env (m_width s) (m_height s) (m_quadListGL s) t
       @ [GL_UnlockObject (object t)]
   \<and> m_quadListGL (composite env t s)
     = (if useTexture env \<and> matchOriginalMSAA env
        then quadList_used env (m_quadListGL s) else m_quadListGL s)"
  by (simp add: composite_def Let_def emit_def slot_composite_def quadList_used_def)

lemma paint_eye_order:
  assumes "m_readBuffer s < length (m_target s)"
  shows "\<exists>s'. paint_eye env eye s
          = Inr (drawBuffer (m_target s ! m_readBuffer s) \<noteq> GL_BACK_LEFT, s')
     \<and> filter composite_event (trace s')
         = filter composite_event (trace s)
           @ slot_pass env eye (m_width s) (m_height s) (m_quadListGL s)
               (m_target s ! m_readBuffer s)
     \<and> m_quadListGL s'
         = quadList_after env eye (m_quadListGL s) (m_target s ! m_readBuffer s)"
  using assms
  by (simp add: paint_eye_def Let_def logIf_def emit_def composite_order composite_props
      slot_pass_def quadList_after_def)

lemma paint_begin_order:
  "filter composite_event (trace (paint_begin env s)) = filter composite_event (trace s)
   \<and> m_quadListGL (paint_begin env s) = m_quadListGL s"
  by (simp add: paint_begin_def Let_def logIf_def emit_def)

lemma paint_end_tail:
  "\<exists>front. trace (paint_end env s)
     = front @ [Window_swapBuffers, FrameDone_signal]
             @ (if Log_verbose env then [Log ''GLSWAP''] else [])"
proof -
  define q where "q = (if stereoIndicator env
      then drawStereoIndicator (emit (Call ''glPopAttrib'') s)
      else emit (Call ''glPopAttrib'') s)"
  have "trace (paint_end env s)
      = trace (logIf (Log_verbose env) ''GLSWAP''
          (emit FrameDone_signal (emit Window_swapBuffers q)))"
    by (simp add: paint_end_def Let_def q_def)
  also have "\<dots> = trace q @ [Window_swapBuffers, FrameDone_signal]
             @ (if Log_verbose env then [Log ''GLSWAP''] else [])"
    by (simp add: logIf_def emit_def)
  finally have tail: "trace (paint_end env s)
      = trace q @ [Window_swapBuffers, FrameDone_signal]
                @ (if Log_verbose env then [Log ''GLSWAP''] else [])" .
  show ?thesis
    by (rule exI [where x = "trace q"]) (rule tail)
qed

lemma paint_end_order:
  "filter composite_event (trace (paint_end env s))
     = filter composite_event (trace s)
       @ (if stereoIndicator env then [GL_DrawBuffer GL_BACK_LEFT, GL_DrawBuffer GL_BACK_RIGHT]
          else [])
       @ [Window_swapBuffers, FrameDone_signal]"
  by (simp add: paint_end_def drawStereoIndicator_def Let_def logIf_def emit_def)

lemma onPaint_order:
  assumes "m_readBuffer s < length (m_target s)"
  shows "\<exists>q. onPaint env s = Inr (paint_end env q)
     \<and> filter composite_event (trace q)
         = filter composite_event (trace s)
           @ slot_pass env 0 (m_width s) (m_height s) (m_quadListGL s)
               (m_target s ! m_readBuffer s)
           @ (if drawBuffer (m_target s ! m_readBuffer s) = GL_BACK_LEFT
              then slot_pass env 1 (m_width s) (m_height s)
                     (quadList_after env 0 (m_quadListGL s) (m_target s ! m_readBuffer s))
                     (m_target s ! ((m_readBuffer s + 1) mod length (m_target s)))
              else [])"
proof -
  let ?b = "paint_begin env s"
  let ?r = "m_readBuffer s"
  let ?n = "length (m_target s)"
  have inside0: "m_readBuffer ?b < length (m_target ?b)"
    using assms by (simp add: paint_begin_props)
  from paint_eye_props [OF inside0, of env 0] paint_eye_order [OF inside0, of env 0]
  obtain s1 where eye0: "paint_eye env 0 ?b
        = Inr (drawBuffer (m_target s ! ?r) \<noteq> GL_BACK_LEFT, s1)"
    and s1: "m_readBuffer s1 = (?r + 1) mod ?n" "m_target s1 = m_target s"
      "m_width s1 = m_width s" "m_height s1 = m_height s"
      "filter composite_event (trace s1)
         = filter composite_event (trace s)
           @ slot_pass env 0 (m_width s) (m_height s) (m_quadListGL s) (m_target s ! ?r)"
      "m_quadListGL s1 = quadList_after env 0 (m_quadListGL s) (m_target s ! ?r)"
    by (auto simp: paint_begin_props paint_begin_order)
  show ?thesis
  proof (cases "drawBuffer (m_target s ! ?r) = GL_BACK_LEFT")
    case False
    then have "onPaint env s = Inr (paint_end env s1)"
      by (simp add: onPaint_def paint_loop_unrolled eye0)
    with False s1 show ?thesis
      by (intro exI [where x = s1]) simp
  next
    case True
    have inside1: "m_readBuffer s1 < length (m_target s1)"
      using assms s1 by (simp add: next_cursor_inside [simplified])
    from paint_eye_order [OF inside1, of env "Suc 0"]
    obtain s2 where eye1: "paint_eye env (Suc 0) s1
          = Inr (drawBuffer (m_target s1 ! m_readBuffer s1) \<noteq> GL_BACK_LEFT, s2)"
      and s2: "filter composite_event (trace s2)
           = filter composite_event (trace s1)
             @ slot_pass env (Suc 0) (m_width s1) (m_height s1) (m_quadListGL s1)
                 (m_target s1 ! m_readBuffer s1)"
      by auto
    from True have "onPaint env s = Inr (paint_end env s2)"
      by (simp add: onPaint_def paint_loop_unrolled eye0 eye1)
    with True s1 s2 show ?thesis
      by (intro exI [where x = s2]) simp
  qed
qed

lemma onPaint_composite:
  assumes "m_readBuffer s < length (m_target s)"
  shows "\<exists>s'. onPaint env s = Inr s'
     \<and> (\<exists>front. trace s' = front @ [Window_swapBuffers, FrameDone_signal]
                                @ (if Log_verbose env then [Log ''GLSWAP''] else []))
     \<and> filter composite_event (trace s')
         = filter composite_event (trace s)
           @ slot_pass env 0 (m_width s) (m_height s) (m_quadListGL s)
               (m_target s ! m_readBuffer s)
           @ (if drawBuffer (m_target s ! m_readBuffer s) = GL_BACK_LEFT
              then slot_pass env 1 (m_width s) (m_height s)
                     (quadList_after env 0 (m_quadListGL s) (m_target s ! m_readBuffer s))
                     (m_target s ! ((m_readBuffer s + 1) mod length (m_target s)))
              else [])
           @ (if stereoIndicator env then [GL_DrawBuffer GL_BACK_LEFT, GL_DrawBuffer GL_BACK_RIGHT]
              else [])
           @ [Window_swapBuffers, FrameDone_signal]"
proof -
  from onPaint_order [OF assms, of env]
  obtain q where paint: "onPaint env s = Inr (paint_end env q)"
    and order: "filter composite_event (trace q)
         = filter composite_event (trace s)
           @ slot_pass env 0 (m_width s) (m_height s) (m_quadListGL s)
               (m_target s ! m_readBuffer s)
           @ (if drawBuffer (m_target s ! m_readBuffer s) = GL_BACK_LEFT
              then slot_pass env 1 (m_width s) (m_height s)
                     (quadList_after env 0 (m_quadListGL s) (m_target s ! m_readBuffer s))
                     (m_target s ! ((m_readBuffer s + 1) mod length (m_target s)))
              else [])"
    by blast
  note tail = paint_end_tail [of env q]
  from paint_end_order [of env q] order have "filter composite_event (trace (paint_end env q))
         = filter composite_event (trace s)
           @ slot_pass env 0 (m_width s) (m_height s) (m_quadListGL s)
               (m_target s ! m_readBuffer s)
           @ (if drawBuffer (m_target s ! m_readBuffer s) = GL_BACK_LEFT
              then slot_pass env 1 (m_width s) (m_height s)
                     (quadList_after env 0 (m_quadListGL s) (m_target s ! m_readBuffer s))
                     (m_target s ! ((m_readBuffer s + 1) mod length (m_target s)))
              else [])
           @ (if stereoIndicator env then [GL_DrawBuffer GL_BACK_LEFT, GL_DrawBuffer GL_BACK_RIGHT]
              else [])
           @ [Window_swapBuffers, FrameDone_signal]"
    by simp
  with paint tail show ?thesis
    by blast
qed

lemma windowProc_paint_props:
  assumes "m_readBuffer s < length (m_target s)"
  shows "\<exists>s'. windowProc env WM_PAINT s = Inr s'
     \<and> m_target s' = m_target s
     \<and> m_drawBuffer s' = m_drawBuffer s
     \<and> m_stereoMode s' = m_stereoMode s
     \<and> m_readBuffer s' =
         (if drawBuffer (m_target s ! m_readBuffer s) = GL_BACK_LEFT
          then ((m_readBuffer s + 1) mod length (m_target s) + 1) mod length (m_target s)
          else (m_readBuffer s + 1) mod length (m_target s))
     \<and> filter pass_event (trace s')
         = filter pass_event (trace s)
           @ [GL_DrawBuffer (drawBuffer (m_target s ! m_readBuffer s))]
           @ (if drawBuffer (m_target s ! m_readBuffer s) = GL_BACK_LEFT
              then [GL_DrawBuffer (drawBuffer
                      (m_target s ! ((m_readBuffer s + 1) mod length (m_target s))))]
              else [])
           @ (if stereoIndicator env then [GL_DrawBuffer GL_BACK_LEFT, GL_DrawBuffer GL_BACK_RIGHT]
              else [])
           @ [Window_swapBuffers, FrameDone_signal]
     \<and> filter lock_event (trace s')
         = filter lock_event (trace s)
           @ slot_locks env 0 (m_target s ! m_readBuffer s)
           @ (if drawBuffer (m_target s ! m_readBuffer s) = GL_BACK_LEFT
              then slot_locks env 1
                     (m_target s ! ((m_readBuffer s + 1) mod length (m_target s)))
              else [])"
proof -
  let ?b = "emit (Call ''BeginPaint'') s"
  have inside: "m_readBuffer ?b < length (m_target ?b)"
    using assms by (simp add: emit_def)
  from onPaint_props [OF inside, of env]
  obtain s1 where "onPaint env ?b = Inr s1"
     and "m_target s1 = m_target ?b"
     and "m_drawBuffer s1 = m_drawBuffer ?b"
     and "m_stereoMode s1 = m_stereoMode ?b"
     and "m_readBuffer s1 =
         (if drawBuffer (m_target ?b ! m_readBuffer ?b) = GL_BACK_LEFT
          then ((m_readBuffer ?b + 1) mod length (m_target ?b) + 1) mod length (m_target ?b)
          else (m_readBuffer ?b + 1) mod length (m_target ?b))"
     and "filter pass_event (trace s1)
         = filter pass_event (trace ?b)
           @ [GL_DrawBuffer (drawBuffer (m_target ?b ! m_readBuffer ?b))]
           @ (if drawBuffer (m_target ?b ! m_readBuffer ?b) = GL_BACK_LEFT
              then [GL_DrawBuffer (drawBuffer
                      (m_target ?b ! ((m_readBuffer ?b + 1) mod length (m_target ?b))))]
              else [])
           @ (if stereoIndicator env then [GL_DrawBuffer GL_BACK_LEFT, GL_DrawBuffer GL_BACK_RIGHT]
              else [])
           @ [Window_swapBuffers, FrameDone_signal]"
     and "filter lock_event (trace s1)
         = filter lock_event (trace ?b)
           @ slot_locks env 0 (m_target ?b ! m_readBuffer ?b)
           @ (if drawBuffer (m_target ?b ! m_readBuffer ?b) = GL_BACK_LEFT
              then slot_locks env 1
                     (m_target ?b ! ((m_readBuffer ?b + 1) mod length (m_target ?b)))
              else [])"
    by blast
  then show ?thesis
    by (simp add: emit_def)
qed

subsection \<open>Facts about lists and the sample states\<close>

lemmas ready_simps = ready_def fresh_def Quadifier_new_def sample_slot_def slot_handle_def

lemma count_list_filter: "P x \<Longrightarrow> count_list (filter P xs) x = count_list xs x"
  by (induction xs) auto

lemma ready_inside:
  "m_drawBuffer (ready a b) < length (m_target (ready a b))"
  "m_readBuffer (ready a b) < length (m_target (ready a b))"
  by (simp_all add: ready_def fresh_def Quadifier_new_def)

lemma ready_fields:
  "trace (ready a b) = []" "m_width (ready a b) = 640" "m_height (ready a b) = 480"
  "m_quadListGL (ready a b) = 0" "m_readBuffer (ready a b) = 0"
  "m_target (ready a b) = [sample_slot 0 a, sample_slot 1 b]"
  by (simp_all add: ready_def fresh_def Quadifier_new_def)

lemma ready_textured_fields:
  "trace (ready_textured a b) = []" "m_width (ready_textured a b) = 640"
  "m_height (ready_textured a b) = 480" "m_quadListGL (ready_textured a b) = 0"
  "m_readBuffer (ready_textured a b) = 0"
  "m_target (ready_textured a b) = [textured_slot 0 a, textured_slot 1 b]"
  by (simp_all add: ready_textured_def ready_def fresh_def Quadifier_new_def)

lemma sample_labels:
  "drawBuffer (sample_slot i label) = label" "drawBuffer (textured_slot i label) = label"
  by (simp_all add: sample_slot_def textured_slot_def)

lemma sample_passes:
  "slot_pass sample_env eye 640 480 quadList (sample_slot 0 label)
     = [GL_DrawBuffer label, GL_LockObject 0x300, GL_BlitFramebuffer 1 640 480,
        GL_UnlockObject 0x300]"
  "slot_pass sample_env eye 640 480 quadList (sample_slot (Suc 0) label)
     = [GL_DrawBuffer label, GL_LockObject 0x301, GL_BlitFramebuffer 2 640 480,
        GL_UnlockObject 0x301]"
  "slot_pass no_lock eye 640 480 quadList (sample_slot 0 label)
     = [GL_DrawBuffer label, GL_LockObject 0x300, Log ''unable to lock DX target on paint'']"
  by (simp_all add: slot_pass_def slot_composite_def
      sample_slot_def slot_handle_def no_lock_def sample_env_def always_def never_def)

lemma textured_passes:
  "slot_pass textured 0 640 480 0 (textured_slot 0 label)
     = [GL_DrawBuffer label, GL_LockObject 0x300, GL_BindTexture 1, GL_CallList 1,
        GL_UnlockObject 0x300]"
  "slot_pass textured (Suc 0) 640 480 (quadList_after textured 0 0 (textured_slot 0 left))
       (textured_slot (Suc 0) label)
     = [GL_DrawBuffer label, GL_LockObject 0x301, GL_BindTexture 2, GL_CallList 1,
        GL_UnlockObject 0x301]"
  by (simp_all add: slot_pass_def slot_composite_def quadList_after_def quadList_used_def
      textured_slot_def slot_handle_def textured_def sample_env_def always_def)

lemma sample_indicators:
  "\<not> stereoIndicator sample_env" "\<not> stereoIndicator no_lock" "\<not> stereoIndicator textured"
  "\<not> Log_verbose sample_env" "\<not> Log_verbose no_lock" "\<not> Log_verbose textured"
  by (simp_all add: textured_def no_lock_def sample_env_def)

subsection \<open>Calls that leave the capture protocol alone\<close>

lemma map_label_update:
  assumes "\<And>t. drawBuffer (f t) = drawBuffer t"
  shows "map drawBuffer (xs[i := f (xs ! i)]) = map drawBuffer xs"
proof (cases "i < length xs")
  case True
  then show ?thesis
    by (simp add: map_update assms list_update_same_conv)
next
  case False
  then show ?thesis by (simp add: list_update_beyond)
qed

lemma pv_emit [simp]: "protocol_view (emit e s) = protocol_view s"
  by (simp add: protocol_view_def emit_def)

lemma pv_logIf [simp]: "protocol_view (logIf b msg s) = protocol_view s"
  by (simp add: logIf_def)

lemma pv_updates [simp]:
  "protocol_view (m_width_update fw s) = protocol_view s"
  "protocol_view (m_height_update fh s) = protocol_view s"
  "protocol_view (m_sourceWindow_update fp s) = protocol_view s"
  "protocol_view (m_samplesDX_update fx s) = protocol_view s"
  "protocol_view (m_samplesGL_update fx s) = protocol_view s"
  "protocol_view (m_backBuffer_update fp s) = protocol_view s"
  "protocol_view (m_thread_update fp s) = protocol_view s"
  "protocol_view (m_interopGLDX_update fp s) = protocol_view s"
  "protocol_view (m_initialised_update fb s) = protocol_view s"
  "protocol_view (m_quadListGL_update fx s) = protocol_view s"
  "protocol_view (m_presentedTargets_update ft s) = protocol_view s"
  "protocol_view (trace_update fe s) = protocol_view s"
  by (simp_all add: protocol_view_def)

lemma pv_set_slot:
  assumes "\<And>t. drawBuffer (f t) = drawBuffer t"
  shows "protocol_view (set_slot i f s) = protocol_view s"
  by (simp add: protocol_view_def set_slot_def map_label_update [of f, OF assms])

lemma pv_fold_log:
  "protocol_view (foldl (\<lambda>st name. emit (Log (p @ name)) st) s names) = protocol_view s"
  by (induction names arbitrary: s) simp_all

lemma pv_attach_colour [simp]: "protocol_view (attach_colour env i s) = protocol_view s"
  by (simp add: attach_colour_def Let_def pv_fold_log)

lemma pv_check_status [simp]: "protocol_view (check_status env i s) = protocol_view s"
  by (simp add: check_status_def Let_def)

lemma pv_gl_target: "protocol_view (snd (gl_target env i s)) = protocol_view s"
  by (simp add: gl_target_def Let_def pv_set_slot)

lemma pv_gl_targets: "protocol_view (snd (gl_targets env i s)) = protocol_view s"
proof (induction env i s rule: gl_targets.induct)
  case (1 env i s)
  show ?case
  proof (cases "i < length (m_target s)")
    case False
    then show ?thesis
      by (subst gl_targets.simps) simp
  next
    case True
    obtain ok s' where pass: "gl_target env i s = (ok, s')"
      by (cases "gl_target env i s")
    have view: "protocol_view s' = protocol_view s"
      using pv_gl_target [of env i s] pass by simp
    show ?thesis
    proof (cases ok)
      case False
      with True pass view show ?thesis
        by (subst gl_targets.simps) simp
    next
      case ok: True
      have "protocol_view (snd (gl_targets env (i + 1) s')) = protocol_view s'"
        using "1.IH" [of ok s'] True pass ok by simp
      with True pass ok view show ?thesis
        by (subst gl_targets.simps) simp
    qed
  qed
qed

lemma pv_if: "protocol_view (if c then a else b) = (if c then protocol_view a else protocol_view b)"
  by (rule if_distrib)

lemma pv_option:
  "protocol_view (case x of None \<Rightarrow> a | Some y \<Rightarrow> b y)
     = (case x of None \<Rightarrow> protocol_view a | Some y \<Rightarrow> protocol_view (b y))"
  by (rule option.case_distrib)

lemma pv_onCreate [simp]: "protocol_view (snd (onCreate env s)) = protocol_view s"
  by (simp add: onCreate_def Let_def case_prod_beta pv_gl_targets)

lemma pv_threadFunc [simp]: "protocol_view (threadFunc env s) = protocol_view s"
  by (simp add: threadFunc_def Let_def case_prod_beta)

lemma map_label_same:
  "drawBuffer t = drawBuffer (xs ! i) \<Longrightarrow> map drawBuffer (xs[i := t]) = map drawBuffer xs"
  by (metis list_update_id map_update)

lemma pv_create_targets:
  "protocol_view (create_targets env format multisampleType i s) = protocol_view s"
proof (induction k \<equiv> "length (m_target s) - i" arbitrary: i s)
  case 0
  then have "\<not> i < length (m_target s)"
    by simp
  then show ?case
    by (subst create_targets.simps) simp
next
  case (Suc k)
  then have less: "i < length (m_target s)"
    by simp
  show ?case
  proof (cases "CreateRenderTarget (create_env env) i")
    case None
    with less show ?thesis
      by (subst create_targets.simps)
         (simp add: Let_def protocol_view_def emit_def map_label_same)
  next
    case (Some created)
    obtain surf share where created: "created = (surf, share)"
      by (cases created)
    define s3 where "s3 = s\<lparr>trace := trace s @ [D3D_CreateRenderTarget i (m_width s) (m_height s)
                              format multisampleType],
        m_target := (m_target s)
          [i := (m_target s ! i)\<lparr>surface := surf, shareHandle := share\<rparr>]\<rparr>"
    have unfold: "create_targets env format multisampleType i s
        = create_targets env format multisampleType (i + 1) s3"
      using less Some created
      by (subst create_targets.simps) (simp add: Let_def emit_def s3_def)
    have view: "protocol_view s3 = protocol_view s"
      by (simp add: s3_def protocol_view_def map_label_same)
    have "k = length (m_target s3) - (i + 1)"
      using Suc.hyps(2) by (simp add: s3_def)
    then have "protocol_view (create_targets env format multisampleType (i + 1) s3)
        = protocol_view s3"
      by (rule Suc.hyps(1))
    with unfold view show ?thesis
      by simp
  qed
qed

lemma pv_startRenderThread [simp]:
  "protocol_view (startRenderThread env s) = protocol_view s"
  by (simp add: startRenderThread_def Let_def)

lemma pv_forced_samples [simp]:
  "protocol_view (snd (forced_samples env s)) = protocol_view s"
  by (simp add: forced_samples_def Let_def)

lemma pv_display_format [simp]:
  "protocol_view (snd (display_format env s)) = protocol_view s"
  by (simp add: display_format_def Let_def split: option.splits)

lemma pv_target_description [simp]:
  "protocol_view (snd (target_description env s)) = protocol_view s"
  by (simp add: target_description_def Let_def split: option.splits)

lemma pv_multisample_type [simp]:
  "protocol_view (snd (multisample_type env d f s)) = protocol_view s"
  by (simp add: multisample_type_def Let_def)

lemma pv_depth_stencil_info [simp]:
  "protocol_view (depth_stencil_info env s) = protocol_view s"
  by (simp add: depth_stencil_info_def)

lemma createResources_cases:
  "createResources env s = Inl IndexOutOfRange \<and> m_target s = []
   \<or> (\<exists>s'. createResources env s = Inr s' \<and> protocol_view s' = protocol_view s)"
proof -
  have labels: "map drawBuffer (m_target (snd (forced_samples env s)))
      = map drawBuffer (m_target s)"
    using pv_forced_samples [of env s] by (simp add: protocol_view_def)
  then have empty: "m_target (snd (forced_samples env s)) = [] \<longleftrightarrow> m_target s = []"
    by (metis map_is_Nil_conv)
  show ?thesis
    by (simp add: createResources_def Let_def case_prod_beta empty pv_create_targets
        split: option.splits)
qed

lemma pv_isPresentedRenderTarget [simp]:
  "protocol_view (snd (isPresentedRenderTarget env s)) = protocol_view s"
  by (simp add: isPresentedRenderTarget_def split: option.splits)

lemma pv_onDestroy [simp]: "protocol_view (onDestroy env s) = protocol_view s"
  by (simp add: onDestroy_def Let_def)

lemma pv_redraw [simp]: "protocol_view (redraw s) = protocol_view s"
  by (simp add: redraw_def)

lemma pv_onResize [simp]: "protocol_view (onResize w h s) = protocol_view s"
  by (simp add: onResize_def)

lemma pv_onPostPresentDX [simp]: "protocol_view (onPostPresentDX env s) = protocol_view s"
  by (simp add: onPostPresentDX_def)

subsection \<open>One call at a time\<close>

lemma pv_fields:
  assumes "protocol_view a = protocol_view b"
  shows "m_stereoMode a = m_stereoMode b" "m_drawBuffer a = m_drawBuffer b"
    "m_readBuffer a = m_readBuffer b" "length (m_target a) = length (m_target b)"
    "map drawBuffer (m_target a) = map drawBuffer (m_target b)"
    "pool_inv a = pool_inv b"
proof -
  from assms show labels: "map drawBuffer (m_target a) = map drawBuffer (m_target b)"
    and "m_stereoMode a = m_stereoMode b" and draw: "m_drawBuffer a = m_drawBuffer b"
    and read: "m_readBuffer a = m_readBuffer b"
    by (simp_all add: protocol_view_def)
  from labels show len: "length (m_target a) = length (m_target b)"
    by (rule map_eq_imp_length_eq)
  from len draw read show "pool_inv a = pool_inv b"
    by (simp add: pool_inv_def)
qed

lemma endCapture_inside:
  "endCapture env label s = Inr s' \<Longrightarrow> m_drawBuffer s < length (m_target s)"
  by (simp add: endCapture_def Let_def logIf_def emit_def split: if_splits)

lemma beginCapture_inside:
  "beginCapture env s = Inr s' \<Longrightarrow> m_drawBuffer s < length (m_target s)"
  by (simp add: beginCapture_def Let_def logIf_def emit_def split: if_splits)

lemma beginCapture_view:
  "beginCapture env s = Inr s' \<Longrightarrow> protocol_view s' = protocol_view s"
  using beginCapture_eq [of s env] beginCapture_inside [of env s s']
  by (auto split: if_splits)

lemma onPaint_inside:
  "onPaint env s = Inr s' \<Longrightarrow> m_readBuffer s < length (m_target s)"
proof (rule ccontr)
  assume ret: "onPaint env s = Inr s'" and out: "\<not> m_readBuffer s < length (m_target s)"
  from out have "paint_eye env 0 (paint_begin env s) = Inl IndexOutOfRange"
    by (simp add: paint_eye_def paint_begin_props)
  then have "onPaint env s = Inl IndexOutOfRange"
    by (simp add: onPaint_def paint_loop_unrolled)
  with ret show False by simp
qed

lemma onPreClearDX_cases:
  assumes "m_drawBuffer s < length (m_target s)"
  shows "onPreClearDX env s = Inl (ProcessExit 1) \<and> \<not> SetRenderTarget_ok env
     \<or> (\<exists>s'. onPreClearDX env s = Inr s' \<and> protocol_view s' = protocol_view s)"
proof -
  let ?s1 = "logIf (Log_verbose env) ''onPreClearDX'' s"
  let ?s2 = "snd (isPresentedRenderTarget env ?s1)"
  have view2: "protocol_view ?s2 = protocol_view s"
    by simp
  show ?thesis
  proof (cases "fst (isPresentedRenderTarget env ?s1)")
    case False
    then show ?thesis
      using view2 by (simp add: onPreClearDX_def Let_def case_prod_beta)
  next
    case True
    have "\<exists>s3. (if \<not> m_initialised ?s2 then createResources env ?s2 else Inr ?s2) = Inr s3
        \<and> protocol_view s3 = protocol_view s"
    proof (cases "m_initialised ?s2")
      case True
      then show ?thesis using view2 by simp
    next
      case False
      have "m_target ?s2 \<noteq> []"
        using assms pv_fields(4) [OF view2] by auto
      with createResources_cases [of env ?s2] False view2 show ?thesis
        by auto
    qed
    then obtain s3 where created:
        "(if \<not> m_initialised ?s2 then createResources env ?s2 else Inr ?s2) = Inr s3"
      and view3: "protocol_view s3 = protocol_view s"
      by blast
    have inside3: "m_drawBuffer s3 < length (m_target s3)"
      using assms pv_fields(2,4) [OF view3] by simp
    have "onPreClearDX env s = beginCapture env s3"
      using True created by (simp add: onPreClearDX_def Let_def case_prod_beta)
    with beginCapture_eq [OF inside3, of env] view3 show ?thesis
      by (cases "SetRenderTarget_ok env") (simp_all add: protocol_view_def)
  qed
qed

lemma onPreClearDX_view:
  "onPreClearDX env s = Inr s' \<Longrightarrow> protocol_view s' = protocol_view s"
proof -
  assume ret: "onPreClearDX env s = Inr s'"
  let ?s1 = "logIf (Log_verbose env) ''onPreClearDX'' s"
  let ?s2 = "snd (isPresentedRenderTarget env ?s1)"
  have view2: "protocol_view ?s2 = protocol_view s"
    by simp
  show ?thesis
  proof (cases "fst (isPresentedRenderTarget env ?s1)")
    case False
    with ret view2 show ?thesis
      by (simp add: onPreClearDX_def Let_def case_prod_beta)
  next
    case True
    with ret obtain s3 where created:
        "(if \<not> m_initialised ?s2 then createResources env ?s2 else Inr ?s2) = Inr s3"
      and capture: "beginCapture env s3 = Inr s'"
      by (auto simp: onPreClearDX_def Let_def case_prod_beta split: sum.splits)
    have "protocol_view s3 = protocol_view ?s2"
      using created createResources_cases [of env ?s2]
      by (cases "m_initialised ?s2") auto
    with beginCapture_view [OF capture] view2 show ?thesis
      by simp
  qed
qed

lemma onPrePresentDX_eq:
  assumes "m_drawBuffer s < length (m_target s)"
  shows "\<exists>s'. onPrePresentDX env s = Inr s'
     \<and> m_stereoMode s' = m_stereoMode s
     \<and> m_readBuffer s' = m_readBuffer s
     \<and> m_drawBuffer s' = (m_drawBuffer s + 1) mod length (m_target s)
     \<and> m_target s' = (m_target s)
          [m_drawBuffer s := (m_target s ! m_drawBuffer s)
             \<lparr>drawBuffer := (if m_stereoMode s then GL_BACK_RIGHT else GL_BACK)\<rparr>]"
proof -
  let ?s2 = "case GetRenderTarget env of
       Some renderTarget \<Rightarrow>
         logIf (Log_verbose env) ''Presenting Render Target: ''
           ((logIf (Log_verbose env) ''onPrePresentDX'' s)
              \<lparr>m_presentedTargets := insert renderTarget
                 (m_presentedTargets (logIf (Log_verbose env) ''onPrePresentDX'' s))\<rparr>)
     | None \<Rightarrow> logIf (Log_verbose env) ''onPrePresentDX'' s"
  have fields: "m_drawBuffer ?s2 = m_drawBuffer s" "m_target ?s2 = m_target s"
      "m_stereoMode ?s2 = m_stereoMode s" "m_readBuffer ?s2 = m_readBuffer s"
    by (simp_all add: logIf_def emit_def split: option.splits)
  have inside: "m_drawBuffer ?s2 < length (m_target ?s2)"
    using assms by (simp add: fields)
  show ?thesis
    unfolding onPrePresentDX_def Let_def endCapture_eq [OF inside]
    by (simp add: fields logIf_def emit_def)
qed

lemma onPrePresentDX_inside:
  "onPrePresentDX env s = Inr s' \<Longrightarrow> m_drawBuffer s < length (m_target s)"
  by (auto simp: onPrePresentDX_def Let_def logIf_def emit_def
      split: sum.splits option.splits if_splits dest!: endCapture_inside)

lemma onStereoSignal_inside:
  "onStereoSignal env s = Inr s' \<Longrightarrow> m_drawBuffer s < length (m_target s)"
  unfolding onStereoSignal_seq
  by (auto split: sum.splits dest!: endCapture_inside)


lemma onStereoSignal_result:
  assumes "onStereoSignal env s = Inr s'"
  shows "m_stereoMode s'"
    and "m_readBuffer s' = m_readBuffer s"
    and "m_drawBuffer s' = (m_drawBuffer s + 1) mod length (m_target s)"
    and "length (m_target s') = length (m_target s)"
proof -
  note inside = onStereoSignal_inside [OF assms]
  have ok: "SetRenderTarget_ok env"
    using assms onStereoSignal_eq [OF inside, of env] by (cases "SetRenderTarget_ok env") simp_all
  from assms show "m_stereoMode s'" and "m_readBuffer s' = m_readBuffer s"
    and "m_drawBuffer s' = (m_drawBuffer s + 1) mod length (m_target s)"
    and "length (m_target s') = length (m_target s)"
    unfolding onStereoSignal_eq [OF inside] using ok by auto
qed

lemma onPreSetViewportDX_cases:
  "onPreSetViewportDX env pViewport s =
     (if calls_endCapture (OnPreSetViewportDX pViewport)
      then (case onStereoSignal env s of Inl e \<Rightarrow> Inl e | Inr s' \<Rightarrow> Inr (True, s'))
      else Inr (True, s))"
  by (cases pViewport) (simp_all add: onPreSetViewportDX_def)

lemma windowProc_view:
  assumes "msg \<noteq> WM_PAINT"
  shows "\<exists>s'. windowProc env msg s = Inr s' \<and> protocol_view s' = protocol_view s"
  using assms by (cases msg) simp_all


lemma step_quiet:
  assumes "\<not> calls_endCapture c" and "c \<noteq> WindowProc WM_PAINT"
    and "step env c s = Inr s'"
  shows "protocol_view s' = protocol_view s"
proof (cases c)
  case OnCreateDX
  with assms(3) show ?thesis by (simp add: onCreateDX_def)
next
  case OnPreClearDX
  with assms(3) show ?thesis by (simp add: onPreClearDX_view)
next
  case OnPostClearDX
  with assms(3) show ?thesis by (simp add: onPostClearDX_def)
next
  case OnPrePresentDX
  with assms(1) show ?thesis by simp
next
  case OnPostPresentDX
  with assms(3) have "s' = onPostPresentDX env s" by simp
  then show ?thesis by simp
next
  case (OnPreSetViewportDX pViewport)
  with assms(1,3) have "s' = s"
    by (simp add: onPreSetViewportDX_cases)
  then show ?thesis by simp
next
  case ThreadFunc
  with assms(3) have "s' = threadFunc env s" by simp
  then show ?thesis by simp
next
  case (WindowProc msg)
  with assms(2) have "msg \<noteq> WM_PAINT" by simp
  from windowProc_view [OF this, of env s] WindowProc assms(3) show ?thesis
    by auto
next
  case OnIdle
  with assms(3) show ?thesis by (simp add: onIdle_def)
qed

lemma step_capture:
  assumes "calls_endCapture c" and "step env c s = Inr s'"
  shows "m_stereoMode s \<longrightarrow> m_stereoMode s'"
    and "m_readBuffer s' = m_readBuffer s"
    and "m_drawBuffer s' = (m_drawBuffer s + 1) mod length (m_target s)"
    and "length (m_target s') = length (m_target s)"
proof -
  have "(m_stereoMode s \<longrightarrow> m_stereoMode s')
      \<and> m_readBuffer s' = m_readBuffer s
      \<and> m_drawBuffer s' = (m_drawBuffer s + 1) mod length (m_target s)
      \<and> length (m_target s') = length (m_target s)"
  proof (cases "c = OnPrePresentDX")
    case True
    with assms(2) have ret: "onPrePresentDX env s = Inr s'" by simp
    from onPrePresentDX_eq [OF onPrePresentDX_inside [OF ret], of env] ret
    show ?thesis by auto
  next
    case False
    with assms(1) obtain pViewport where c: "c = OnPreSetViewportDX pViewport"
      by (cases c) simp_all
    with assms have ret: "onStereoSignal env s = Inr s'"
      by (auto simp: onPreSetViewportDX_cases split: sum.splits)
    from onStereoSignal_result [OF ret] show ?thesis
      by simp
  qed
  then show "m_stereoMode s \<longrightarrow> m_stereoMode s'"
    and "m_readBuffer s' = m_readBuffer s"
    and "m_drawBuffer s' = (m_drawBuffer s + 1) mod length (m_target s)"
    and "length (m_target s') = length (m_target s)"
    by simp_all
qed

lemma step_paint:
  assumes "step env (WindowProc WM_PAINT) s = Inr s'"
  shows "m_stereoMode s' = m_stereoMode s"
    and "m_drawBuffer s' = m_drawBuffer s"
    and "m_target s' = m_target s"
    and "m_readBuffer s' =
         (if drawBuffer (m_target s ! m_readBuffer s) = GL_BACK_LEFT
          then ((m_readBuffer s + 1) mod length (m_target s) + 1) mod length (m_target s)
          else (m_readBuffer s + 1) mod length (m_target s))"
    and "filter pass_event (trace s')
         = filter pass_event (trace s)
           @ [GL_DrawBuffer (drawBuffer (m_target s ! m_readBuffer s))]
           @ (if drawBuffer (m_target s ! m_readBuffer s) = GL_BACK_LEFT
              then [GL_DrawBuffer (drawBuffer
                      (m_target s ! ((m_readBuffer s + 1) mod length (m_target s))))]
              else [])
           @ (if stereoIndicator env then [GL_DrawBuffer GL_BACK_LEFT, GL_DrawBuffer GL_BACK_RIGHT]
              else [])
           @ [Window_swapBuffers, FrameDone_signal]"
proof -
  from assms have ret: "windowProc env WM_PAINT s = Inr s'"
    by (simp only: step.simps)
  have "\<exists>q. onPaint env (emit (Call ''BeginPaint'') s) = Inr q"
    using ret by (cases "onPaint env (emit (Call ''BeginPaint'') s)") simp_all
  then obtain q where "onPaint env (emit (Call ''BeginPaint'') s) = Inr q" ..
  then have "m_readBuffer (emit (Call ''BeginPaint'') s)
      < length (m_target (emit (Call ''BeginPaint'') s))"
    by (rule onPaint_inside)
  then have inside: "m_readBuffer s < length (m_target s)"
    by (simp add: emit_def)
  from windowProc_paint_props [OF inside, of env]
  obtain s'' where ret': "windowProc env WM_PAINT s = Inr s''"
    and props: "m_target s'' = m_target s" "m_drawBuffer s'' = m_drawBuffer s"
      "m_stereoMode s'' = m_stereoMode s"
      "m_readBuffer s'' =
         (if drawBuffer (m_target s ! m_readBuffer s) = GL_BACK_LEFT
          then ((m_readBuffer s + 1) mod length (m_target s) + 1) mod length (m_target s)
          else (m_readBuffer s + 1) mod length (m_target s))"
      "filter pass_event (trace s'')
         = filter pass_event (trace s)
           @ [GL_DrawBuffer (drawBuffer (m_target s ! m_readBuffer s))]
           @ (if drawBuffer (m_target s ! m_readBuffer s) = GL_BACK_LEFT
              then [GL_DrawBuffer (drawBuffer
                      (m_target s ! ((m_readBuffer s + 1) mod length (m_target s))))]
              else [])
           @ (if stereoIndicator env then [GL_DrawBuffer GL_BACK_LEFT, GL_DrawBuffer GL_BACK_RIGHT]
              else [])
           @ [Window_swapBuffers, FrameDone_signal]"
    by blast
  from ret ret' have same: "s'' = s'"
    by simp
  from props(3) show "m_stereoMode s' = m_stereoMode s" unfolding same .
  from props(2) show "m_drawBuffer s' = m_drawBuffer s" unfolding same .
  from props(1) show "m_target s' = m_target s" unfolding same .
  from props(4) show "m_readBuffer s' =
         (if drawBuffer (m_target s ! m_readBuffer s) = GL_BACK_LEFT
          then ((m_readBuffer s + 1) mod length (m_target s) + 1) mod length (m_target s)
          else (m_readBuffer s + 1) mod length (m_target s))" unfolding same .
  from props(5) show "filter pass_event (trace s')
         = filter pass_event (trace s)
           @ [GL_DrawBuffer (drawBuffer (m_target s ! m_readBuffer s))]
           @ (if drawBuffer (m_target s ! m_readBuffer s) = GL_BACK_LEFT
              then [GL_DrawBuffer (drawBuffer
                      (m_target s ! ((m_readBuffer s + 1) mod length (m_target s))))]
              else [])
           @ (if stereoIndicator env then [GL_DrawBuffer GL_BACK_LEFT, GL_DrawBuffer GL_BACK_RIGHT]
              else [])
           @ [Window_swapBuffers, FrameDone_signal]" unfolding same .
qed

lemma step_stereo:
  assumes "step env c s = Inr s'" and "m_stereoMode s"
  shows "m_stereoMode s'"
proof (cases "calls_endCapture c")
  case True
  from step_capture(1) [OF True assms(1)] assms(2) show ?thesis by simp
next
  case False
  show ?thesis
  proof (cases "c = WindowProc WM_PAINT")
    case True
    with assms(1) have "step env (WindowProc WM_PAINT) s = Inr s'" by simp
    from step_paint(1) [OF this] assms(2) show ?thesis by simp
  next
    case paint: False
    from pv_fields(1) [OF step_quiet [OF False paint assms(1)]] assms(2) show ?thesis
      by simp
  qed
qed

lemma run_stereo:
  "run cs s = Inr s' \<Longrightarrow> m_stereoMode s \<Longrightarrow> m_stereoMode s'"
proof (induction cs arbitrary: s)
  case Nil
  then show ?case by simp
next
  case (Cons ec cs)
  obtain env c where ec: "ec = (env, c)"
    by (cases ec)
  with Cons.prems(1) obtain s1 where first: "step env c s = Inr s1"
    and rest: "run cs s1 = Inr s'"
    by (auto split: sum.splits)
  from step_stereo [OF first Cons.prems(2)] have "m_stereoMode s1" .
  with Cons.IH [OF rest] show ?case .
qed

lemma step_safe:
  assumes "pool_inv s"
  shows "step env c s \<noteq> Inl IndexOutOfRange"
proof -
  from assms have draw: "m_drawBuffer s < length (m_target s)"
    and read: "m_readBuffer s < length (m_target s)"
    by (simp_all add: pool_inv_def)
  show ?thesis
  proof (cases c)
    case OnCreateDX
    then show ?thesis by simp
  next
    case OnPreClearDX
    with onPreClearDX_cases [OF draw, of env] show ?thesis by auto
  next
    case OnPostClearDX
    then show ?thesis by simp
  next
    case OnPrePresentDX
    with onPrePresentDX_eq [OF draw, of env] show ?thesis by auto
  next
    case OnPostPresentDX
    then show ?thesis by simp
  next
    case (OnPreSetViewportDX pViewport)
    then show ?thesis
      by (simp add: onPreSetViewportDX_cases onStereoSignal_eq [OF draw])
  next
    case ThreadFunc
    then show ?thesis by simp
  next
    case (WindowProc msg)
    show ?thesis
    proof (cases "msg = WM_PAINT")
      case True
      with windowProc_paint_props [OF read, of env] WindowProc show ?thesis by auto
    next
      case False
      from windowProc_view [OF False, of env s] WindowProc show ?thesis by auto
    qed
  next
    case OnIdle
    then show ?thesis by simp
  qed
qed

subsection \<open>The sample session, evaluated\<close>

lemmas sample_env_simps = sample_env_def sample_create_env_def sample_gl_env_def
  sample_surfaces_def sample_status_def sample_desc_def slot_handle_def always_def

lemmas constant_simps = GL_NONE_def GL_BACK_def GL_BACK_LEFT_def GL_BACK_RIGHT_def
  D3DMULTISAMPLE_NONE_def D3DMULTISAMPLE_2_SAMPLES_def D3DMULTISAMPLE_16_SAMPLES_def
  D3DFMT_X8R8G8B8_def GL_FRAMEBUFFER_COMPLETE_def
  GL_FRAMEBUFFER_INCOMPLETE_MISSING_ATTACHMENT_def

lemma pool_new: "replicate poolSize x = [x, x]"
  by (simp add: poolSize_def numeral_2_eq_2)

lemma first_frame:
  "run [(sample_env, OnPreClearDX), (sample_env, OnPrePresentDX), (sample_env, OnPostPresentDX)]
     fresh = Inr presented_once"
  by (simp add: presented_once_def onPreClearDX_def isPresentedRenderTarget_def
      onPrePresentDX_def endCapture_def onPostPresentDX_def Let_def logIf_def emit_def
      sample_env_def fresh_def Quadifier_new_def pool_new)

lemma second_clear: "step sample_env OnPreClearDX presented_once = Inr capturing"
  by (simp add: capturing_def presented_once_def onPreClearDX_def isPresentedRenderTarget_def
      createResources_def forced_samples_def display_format_def target_description_def
      multisample_type_def depth_stencil_info_def create_targets.simps startRenderThread_def
      beginCapture_def Let_def logIf_def emit_def
      sample_env_simps constant_simps fresh_def Quadifier_new_def pool_new
      RenderTarget_new_def sample_viewport_def)

lemma thread_start: "step sample_env ThreadFunc capturing = Inr consumer_ready"
  by (simp add: consumer_ready_def capturing_def presented_once_def threadFunc_def onCreate_def
      gl_targets.simps gl_target_def set_slot_def attach_colour_def check_status_def
      Let_def logIf_def emit_def
      sample_env_simps constant_simps fresh_def Quadifier_new_def pool_new
      RenderTarget_new_def sample_viewport_def)


lemma run_append:
  "run (cs @ ds) s = (case run cs s of Inl e \<Rightarrow> Inl e | Inr s' \<Rightarrow> run ds s')"
proof (induction cs arbitrary: s)
  case Nil
  show ?case by simp
next
  case (Cons ec cs)
  obtain env c where "ec = (env, c)"
    by (cases ec)
  with Cons.IH show ?case
    by (simp split: sum.splits)
qed

lemma two_paints:
  "filter pass_event (final_trace
      (run [(sample_env, WindowProc WM_PAINT), (sample_env, WindowProc WM_PAINT)] consumer_ready))
     = [GL_DrawBuffer GL_BACK, Window_swapBuffers, FrameDone_signal,
        GL_DrawBuffer GL_NONE, Window_swapBuffers, FrameDone_signal]"
  "filter draw_event (final_trace
      (run [(sample_env, WindowProc WM_PAINT), (sample_env, WindowProc WM_PAINT)] consumer_ready))
     = [GL_BlitFramebuffer 1 640 480, GL_BlitFramebuffer 2 640 480]"
  by (simp_all add: onPaint_def paint_loop_unrolled paint_eye_def composite_def paint_begin_def
      paint_end_def Let_def logIf_def emit_def
      consumer_ready_def capturing_def presented_once_def fresh_def Quadifier_new_def
      sample_env_def always_def constant_simps)

lemma early_paints_run:
  "run early_paints fresh
     = run [(sample_env, WindowProc WM_PAINT), (sample_env, WindowProc WM_PAINT)] consumer_ready"
proof -
  have parts: "early_paints =
      [(sample_env, OnPreClearDX), (sample_env, OnPrePresentDX), (sample_env, OnPostPresentDX)]
      @ [(sample_env, OnPreClearDX), (sample_env, ThreadFunc),
         (sample_env, WindowProc WM_PAINT), (sample_env, WindowProc WM_PAINT)]"
    by (simp add: early_paints_def)
  have "run early_paints fresh
      = run [(sample_env, OnPreClearDX), (sample_env, ThreadFunc),
             (sample_env, WindowProc WM_PAINT), (sample_env, WindowProc WM_PAINT)] presented_once"
    unfolding parts run_append first_frame by (simp only: sum.case)
  also have "\<dots> = run [(sample_env, WindowProc WM_PAINT), (sample_env, WindowProc WM_PAINT)]
      consumer_ready"
    by (simp only: run.simps second_clear thread_start sum.case)
  finally show ?thesis .
qed

lemma consumer_ready_fields:
  "m_readBuffer consumer_ready = 0"
  "m_target consumer_ready =
     [\<lparr>surface = 0x100, shareHandle = 0x200, texture = 0, renderBuffer = 1,
       frameBuffer = 1, object = 0x300, drawBuffer = GL_BACK\<rparr>,
      \<lparr>surface = 0x101, shareHandle = 0x201, texture = 0, renderBuffer = 2,
       frameBuffer = 2, object = 0x301, drawBuffer = GL_NONE\<rparr>]"
  "filter pass_event (trace consumer_ready) = []"
  by (simp_all add: consumer_ready_def capturing_def presented_once_def fresh_def
      Quadifier_new_def)

lemma consumer_ready_inv: "pool_inv consumer_ready"
  by (simp add: pool_inv_def poolSize_def consumer_ready_def capturing_def presented_once_def
      fresh_def Quadifier_new_def)

subsection \<open>Capture protocol\<close>

text \<open>
  C7. \<^verbatim>\<open>endCapture(label)\<close>, called with the draw cursor inside the pool, returns
  normally; it tags \<open>pool[drawIndex]\<close> with the label it was given (the slot's other
  members and the other slots stay as they were), advances \<open>drawIndex\<close> to
  \<open>(drawIndex + 1) mod\<close> pool size, and increments the producer frame counter
  \<^verbatim>\<open>m_framesDX\<close> exactly when the mode flag is stereo at the call. Nothing else of the
  object changes; the only call it makes is one log line under verbose logging.
\<close>

theorem endCapture_effect:
  assumes "m_drawBuffer s < length (m_target s)"
  shows "\<exists>s'. endCapture env label s = Inr s'
     \<and> m_target s' = (m_target s)
          [m_drawBuffer s := (m_target s ! m_drawBuffer s)\<lparr>drawBuffer := label\<rparr>]
     \<and> drawBuffer (m_target s' ! m_drawBuffer s) = label
     \<and> m_drawBuffer s' = (m_drawBuffer s + 1) mod length (m_target s)
     \<and> m_framesDX s' = (if m_stereoMode s then m_framesDX s + 1 else m_framesDX s)
     \<and> (m_framesDX s' = m_framesDX s + 1 \<longleftrightarrow> m_stereoMode s)
     \<and> trace s' = trace s @ (if Log_verbose env then [Log ''endCapture ''] else [])
     \<and> s'\<lparr>m_target := m_target s, m_drawBuffer := m_drawBuffer s,
            m_framesDX := m_framesDX s, trace := trace s\<rparr> = s"
  using assms by (simp add: endCapture_def Let_def logIf_def emit_def)

theorem endCapture_effect_witness:
  "m_drawBuffer (ready GL_NONE GL_NONE) < length (m_target (ready GL_NONE GL_NONE))
   \<and> (\<exists>s'. endCapture sample_env GL_BACK (ready GL_NONE GL_NONE) = Inr s'
        \<and> m_target s' = [sample_slot 0 GL_BACK, sample_slot 1 GL_NONE]
        \<and> m_drawBuffer s' = 1
        \<and> m_framesDX s' = 0)"
proof -
  have inside: "m_drawBuffer (ready GL_NONE GL_NONE) < length (m_target (ready GL_NONE GL_NONE))"
    by (simp add: ready_def fresh_def Quadifier_new_def)
  from endCapture_effect [OF inside, of sample_env GL_BACK]
  obtain s' where "endCapture sample_env GL_BACK (ready GL_NONE GL_NONE) = Inr s'"
    and "m_target s' = (m_target (ready GL_NONE GL_NONE))
          [m_drawBuffer (ready GL_NONE GL_NONE) :=
             (m_target (ready GL_NONE GL_NONE) ! m_drawBuffer (ready GL_NONE GL_NONE))
               \<lparr>drawBuffer := GL_BACK\<rparr>]"
    and "m_drawBuffer s' = (m_drawBuffer (ready GL_NONE GL_NONE) + 1)
           mod length (m_target (ready GL_NONE GL_NONE))"
    and "m_framesDX s' = (if m_stereoMode (ready GL_NONE GL_NONE)
           then m_framesDX (ready GL_NONE GL_NONE) + 1 else m_framesDX (ready GL_NONE GL_NONE))"
    by blast
  then show ?thesis
    using inside by (simp add: ready_def fresh_def Quadifier_new_def sample_slot_def)
qed

text \<open>
  C8, as the code has it. Called with the draw cursor inside the pool,
  \<^verbatim>\<open>beginCapture\<close> asks the device for the current viewport and then redirects render
  target 0 to the surface of \<open>pool[drawIndex]\<close>. If that redirection fails the process
  exits with status 1 and nothing follows it. If it succeeds, the viewport that was
  read is set again afterwards, provided the query for it had succeeded; when the
  query failed no viewport is set. Nothing of the object changes.
\<close>

theorem beginCapture_effect:
  assumes "m_drawBuffer s < length (m_target s)"
  shows "beginCapture env s =
      (if \<not> SetRenderTarget_ok env then Inl (ProcessExit 1)
       else Inr (s\<lparr>trace := trace s
              @ (if Log_verbose env then [Log ''beginCapture''] else [])
              @ [D3D_GetViewport]
              @ (if Log_verbose env then [Log ''SetRenderTarget(''] else [])
              @ [D3D_SetRenderTarget 0 (surface (m_target s ! m_drawBuffer s))]
              @ (case GetViewport env of
                   Some viewport \<Rightarrow> [D3D_SetViewport viewport]
                 | None \<Rightarrow> [])\<rparr>))"
  using assms by (rule beginCapture_eq)

theorem beginCapture_effect_witness:
  "m_drawBuffer (ready GL_NONE GL_NONE) < length (m_target (ready GL_NONE GL_NONE))
   \<and> beginCapture sample_env (ready GL_NONE GL_NONE)
       = Inr ((ready GL_NONE GL_NONE)
           \<lparr>trace := [D3D_GetViewport, D3D_SetRenderTarget 0 0x100,
                      D3D_SetViewport sample_viewport]\<rparr>)
   \<and> beginCapture redirect_fails (ready GL_NONE GL_NONE) = Inl (ProcessExit 1)"
proof -
  have "beginCapture sample_env (ready GL_NONE GL_NONE)
       = Inr ((ready GL_NONE GL_NONE)
           \<lparr>trace := [D3D_GetViewport, D3D_SetRenderTarget 0 0x100,
                      D3D_SetViewport sample_viewport]\<rparr>)"
    using beginCapture_effect [OF ready_inside(1) [of GL_NONE GL_NONE],
        where env = sample_env]
    by (simp add: sample_env_def ready_def fresh_def Quadifier_new_def sample_slot_def
        slot_handle_def)
  moreover have "beginCapture redirect_fails (ready GL_NONE GL_NONE) = Inl (ProcessExit 1)"
    using beginCapture_effect [OF ready_inside(1) [of GL_NONE GL_NONE],
        where env = redirect_fails]
    by (simp add: redirect_fails_def sample_env_def)
  ultimately show ?thesis
    using ready_inside(1) by blast
qed

text \<open>
  C8 as the spec states it fails where \<^verbatim>\<open>GetViewport\<close> reports a failure: the redirection
  succeeds, and \<^verbatim>\<open>beginCapture\<close> returns without having restored any viewport (the guard
  \<^verbatim>\<open>if (savedViewport)\<close> of line 972).
\<close>

theorem beginCapture_no_restore_counterexample:
  "SetRenderTarget_ok viewport_query_fails
   \<and> beginCapture viewport_query_fails (ready GL_NONE GL_NONE)
       = Inr ((ready GL_NONE GL_NONE)
           \<lparr>trace := [D3D_GetViewport, D3D_SetRenderTarget 0 0x100]\<rparr>)"
  by (simp add: beginCapture_def Let_def logIf_def emit_def viewport_query_fails_def
      sample_env_def ready_def fresh_def Quadifier_new_def sample_slot_def slot_handle_def)

subsection \<open>Stereo signal detector\<close>

text \<open>
  C2. A viewport-configuration call whose viewport has \<open>X = 1\<close>, \<open>Width = 2\<close> and
  \<open>Height = 3\<close> (whatever its \<open>Y\<close> and depth range) sets the mode flag to stereo, logs
  "Stereo enabled" only if the flag was not yet set (and the log level admits it), then
  runs \<^verbatim>\<open>endCapture(GL_BACK_LEFT)\<close> and right after it \<^verbatim>\<open>beginCapture()\<close>: the slot under the
  draw cursor is labelled left, the cursor advances, and the device is redirected to
  the next slot. A viewport of any other geometry leaves the object as it was and makes
  no call.
\<close>

theorem stereo_signal_detector:
  assumes "m_drawBuffer s < length (m_target s)"
  shows "onPreSetViewportDX env (Some vp) s =
      (if X vp = 1 \<and> Width vp = 2 \<and> Height vp = 3 then
         (case endCapture env GL_BACK_LEFT
                 (s\<lparr>m_stereoMode := True,
                    trace := trace s
                      @ (if Log_verbose env then [Log ''stereo signal''] else [])
                      @ (if \<not> m_stereoMode s \<and> Log_info env then [Log ''Stereo enabled'']
                         else [])\<rparr>) of
            Inl e \<Rightarrow> Inl e
          | Inr s1 \<Rightarrow>
              (case beginCapture env s1 of
                 Inl e \<Rightarrow> Inl e
               | Inr s2 \<Rightarrow> Inr (True, s2)))
       else Inr (True, s))
    \<and> (X vp = 1 \<and> Width vp = 2 \<and> Height vp = 3 \<and> SetRenderTarget_ok env \<longrightarrow>
        (\<exists>s'. onPreSetViewportDX env (Some vp) s = Inr (True, s')
          \<and> m_stereoMode s'
          \<and> m_target s' = (m_target s)
               [m_drawBuffer s := (m_target s ! m_drawBuffer s)\<lparr>drawBuffer := GL_BACK_LEFT\<rparr>]
          \<and> m_drawBuffer s' = (m_drawBuffer s + 1) mod length (m_target s)
          \<and> count_list (trace s') (Log ''Stereo enabled'')
              = count_list (trace s) (Log ''Stereo enabled'')
                + (if \<not> m_stereoMode s \<and> Log_info env then 1 else 0)
          \<and> filter device_event (trace s')
              = filter device_event (trace s)
                @ [D3D_GetViewport,
                   D3D_SetRenderTarget 0 (surface (m_target s' ! m_drawBuffer s'))]
                @ (case GetViewport env of
                     Some viewport \<Rightarrow> [D3D_SetViewport viewport]
                   | None \<Rightarrow> [])))"
proof -
  have seq: "onPreSetViewportDX env (Some vp) s =
      (if X vp = 1 \<and> Width vp = 2 \<and> Height vp = 3 then
         (case onStereoSignal env s of Inl e \<Rightarrow> Inl e | Inr s' \<Rightarrow> Inr (True, s'))
       else Inr (True, s))"
    by (simp add: onPreSetViewportDX_def)
  have first: "onPreSetViewportDX env (Some vp) s =
      (if X vp = 1 \<and> Width vp = 2 \<and> Height vp = 3 then
         (case endCapture env GL_BACK_LEFT
                 (s\<lparr>m_stereoMode := True,
                    trace := trace s
                      @ (if Log_verbose env then [Log ''stereo signal''] else [])
                      @ (if \<not> m_stereoMode s \<and> Log_info env then [Log ''Stereo enabled'']
                         else [])\<rparr>) of
            Inl e \<Rightarrow> Inl e
          | Inr s1 \<Rightarrow>
              (case beginCapture env s1 of
                 Inl e \<Rightarrow> Inl e
               | Inr s2 \<Rightarrow> Inr (True, s2)))
       else Inr (True, s))"
    unfolding seq onStereoSignal_seq by (simp split: sum.splits)
  have second: "X vp = 1 \<and> Width vp = 2 \<and> Height vp = 3 \<and> SetRenderTarget_ok env \<longrightarrow>
        (\<exists>s'. onPreSetViewportDX env (Some vp) s = Inr (True, s')
          \<and> m_stereoMode s'
          \<and> m_target s' = (m_target s)
               [m_drawBuffer s := (m_target s ! m_drawBuffer s)\<lparr>drawBuffer := GL_BACK_LEFT\<rparr>]
          \<and> m_drawBuffer s' = (m_drawBuffer s + 1) mod length (m_target s)
          \<and> count_list (trace s') (Log ''Stereo enabled'')
              = count_list (trace s) (Log ''Stereo enabled'')
                + (if \<not> m_stereoMode s \<and> Log_info env then 1 else 0)
          \<and> filter device_event (trace s')
              = filter device_event (trace s)
                @ [D3D_GetViewport,
                   D3D_SetRenderTarget 0 (surface (m_target s' ! m_drawBuffer s'))]
                @ (case GetViewport env of
                     Some viewport \<Rightarrow> [D3D_SetViewport viewport]
                   | None \<Rightarrow> []))"
    unfolding seq onStereoSignal_eq [OF assms]
    by (simp split: option.splits)
  from first second show ?thesis by blast
qed

theorem stereo_signal_detector_witness:
  "m_drawBuffer (ready GL_NONE GL_NONE) < length (m_target (ready GL_NONE GL_NONE))
   \<and> X sentinel_viewport = 1 \<and> Width sentinel_viewport = 2 \<and> Height sentinel_viewport = 3
   \<and> SetRenderTarget_ok sample_env
   \<and> onPreSetViewportDX sample_env (Some sentinel_viewport) (ready GL_NONE GL_NONE)
       = Inr (True, (ready GL_NONE GL_NONE)
           \<lparr>m_stereoMode := True,
            m_target := [sample_slot 0 GL_BACK_LEFT, sample_slot 1 GL_NONE],
            m_drawBuffer := 1,
            m_framesDX := 1,
            trace := [D3D_GetViewport, D3D_SetRenderTarget 0 0x101,
                      D3D_SetViewport sample_viewport]\<rparr>)
   \<and> onPreSetViewportDX sample_env (Some sample_viewport) (ready GL_NONE GL_NONE)
       = Inr (True, ready GL_NONE GL_NONE)"
proof -
  have geometry: "X sentinel_viewport = 1 \<and> Width sentinel_viewport = 2
      \<and> Height sentinel_viewport = 3"
    by (simp add: sentinel_viewport_def)
  have other: "\<not> (X sample_viewport = 1 \<and> Width sample_viewport = 2
      \<and> Height sample_viewport = 3)"
    by (simp add: sample_viewport_def)
  have ok: "SetRenderTarget_ok sample_env"
    by (simp add: sample_env_def)
  have signal: "onPreSetViewportDX sample_env (Some sentinel_viewport) (ready GL_NONE GL_NONE)
       = Inr (True, (ready GL_NONE GL_NONE)
           \<lparr>m_stereoMode := True,
            m_target := [sample_slot 0 GL_BACK_LEFT, sample_slot 1 GL_NONE],
            m_drawBuffer := 1,
            m_framesDX := 1,
            trace := [D3D_GetViewport, D3D_SetRenderTarget 0 0x101,
                      D3D_SetViewport sample_viewport]\<rparr>)"
    using stereo_signal_detector [OF ready_inside(1) [of GL_NONE GL_NONE],
        where env = sample_env and vp = sentinel_viewport] geometry
    by (simp add: endCapture_def beginCapture_def Let_def logIf_def emit_def
        sample_env_def ready_def fresh_def Quadifier_new_def sample_slot_def slot_handle_def)
  have pass: "onPreSetViewportDX sample_env (Some sample_viewport) (ready GL_NONE GL_NONE)
       = Inr (True, ready GL_NONE GL_NONE)"
    using stereo_signal_detector [OF ready_inside(1) [of GL_NONE GL_NONE],
        where env = sample_env and vp = sample_viewport] other
    by simp
  from ready_inside(1) geometry ok signal pass show ?thesis
    by blast
qed

text \<open>
  C10, as the code has it. With the draw cursor inside the pool,
  \<^verbatim>\<open>onPreSetViewportDX\<close> returns \<open>true\<close> for a null pointer (the object is not touched and
  no signal is raised), for every viewport that is not the sentinel (likewise), and for
  the sentinel when the redirection inside \<^verbatim>\<open>beginCapture\<close> succeeds. For the sentinel
  with a failing redirection it does not return: the process exits with status 1.
\<close>

theorem onPreSetViewportDX_returns:
  assumes "m_drawBuffer s < length (m_target s)"
  shows "onPreSetViewportDX env None s = Inr (True, s)
    \<and> (if X vp = 1 \<and> Width vp = 2 \<and> Height vp = 3
        then (if SetRenderTarget_ok env
              then \<exists>s'. onPreSetViewportDX env (Some vp) s = Inr (True, s')
              else onPreSetViewportDX env (Some vp) s = Inl (ProcessExit 1))
        else onPreSetViewportDX env (Some vp) s = Inr (True, s))"
  by (simp add: onPreSetViewportDX_def onStereoSignal_eq [OF assms])

theorem onPreSetViewportDX_returns_witness:
  "m_drawBuffer (ready GL_NONE GL_NONE) < length (m_target (ready GL_NONE GL_NONE))
   \<and> onPreSetViewportDX sample_env None (ready GL_NONE GL_NONE)
       = Inr (True, ready GL_NONE GL_NONE)
   \<and> (\<exists>s'. onPreSetViewportDX sample_env (Some sentinel_viewport) (ready GL_NONE GL_NONE)
        = Inr (True, s'))"
  using onPreSetViewportDX_returns [OF ready_inside(1) [of GL_NONE GL_NONE],
      where env = sample_env and vp = sentinel_viewport] ready_inside(1) [of GL_NONE GL_NONE]
  by (simp add: sentinel_viewport_def sample_env_def)

text \<open>
  C10 as the spec states it ("always returns true for every input") fails for the
  sentinel viewport when \<^verbatim>\<open>SetRenderTarget\<close> fails: \<^verbatim>\<open>exit(1)\<close> of line 968 is reached
  through \<^verbatim>\<open>onStereoSignal\<close> and \<^verbatim>\<open>beginCapture\<close>.
\<close>

theorem onPreSetViewportDX_exit_counterexample:
  "onPreSetViewportDX redirect_fails (Some sentinel_viewport) (ready GL_NONE GL_NONE)
     = Inl (ProcessExit 1)"
  by (simp add: onPreSetViewportDX_def onStereoSignal_eq [OF ready_inside(1)]
      sentinel_viewport_def redirect_fails_def sample_env_def)

subsection \<open>Frame handshake and composite pass\<close>

text \<open>
  C1. \<^verbatim>\<open>onPostPresentDX\<close> makes one call, the wait on the frame-done event with a timeout
  of 1000 ms, and returns with the object unchanged whatever the wait answers; by the
  wait as the spec describes it, that blocks the producer for at most 1000 ms, and for
  exactly 1000 ms when the consumer never signals. Every composite pass (\<^verbatim>\<open>onPaint\<close>
  with the read cursor inside the pool) returns and raises the frame-done signal exactly
  once, at its end: the signal comes after every draw buffer selection, interop lock,
  blit or textured quad and unlock of the pass and right after the buffer swap, whatever
  the interop locks of that pass answered, and nothing but the log line \<^verbatim>\<open>GLSWAP\<close>
  follows it in the pass.
\<close>

theorem frame_handshake:
  assumes "m_readBuffer s < length (m_target s)"
  shows "trace (onPostPresentDX env p)
        = trace p @ (if Log_verbose env then [Log ''onPostPresentDX''] else [])
                  @ [FrameDone_wait 1000]
     \<and> (onPostPresentDX env p)\<lparr>trace := trace p\<rparr> = p
     \<and> producer_blocked consumer (trace (onPostPresentDX env p))
        = producer_blocked consumer (trace p) + Event_wait 1000 consumer
     \<and> Event_wait 1000 consumer \<le> 1000
     \<and> Event_wait 1000 None = 1000
     \<and> (\<exists>s'. onPaint env s = Inr s'
          \<and> count_list (trace s') FrameDone_signal
             = count_list (trace s) FrameDone_signal + 1
          \<and> (\<exists>front. trace s' = front @ [Window_swapBuffers, FrameDone_signal]
                                     @ (if Log_verbose env then [Log ''GLSWAP''] else []))
          \<and> filter composite_event (trace s')
             = filter composite_event (trace s)
               @ slot_pass env 0 (m_width s) (m_height s) (m_quadListGL s)
                   (m_target s ! m_readBuffer s)
               @ (if drawBuffer (m_target s ! m_readBuffer s) = GL_BACK_LEFT
                  then slot_pass env 1 (m_width s) (m_height s)
                         (quadList_after env 0 (m_quadListGL s) (m_target s ! m_readBuffer s))
                         (m_target s ! ((m_readBuffer s + 1) mod length (m_target s)))
                  else [])
               @ (if stereoIndicator env
                  then [GL_DrawBuffer GL_BACK_LEFT, GL_DrawBuffer GL_BACK_RIGHT] else [])
               @ [Window_swapBuffers, FrameDone_signal])"
proof -
  have wait: "trace (onPostPresentDX env p)
        = trace p @ (if Log_verbose env then [Log ''onPostPresentDX''] else [])
                  @ [FrameDone_wait 1000]"
    by (simp add: onPostPresentDX_def logIf_def emit_def)
  have same: "(onPostPresentDX env p)\<lparr>trace := trace p\<rparr> = p"
    by (simp add: onPostPresentDX_def logIf_def emit_def)
  have blocked: "producer_blocked consumer (trace (onPostPresentDX env p))
        = producer_blocked consumer (trace p) + Event_wait 1000 consumer"
    unfolding wait by (simp add: producer_blocked_def)
  have bounded: "Event_wait 1000 consumer \<le> 1000"
    by (simp add: Event_wait_def split: option.splits)
  have timeout: "Event_wait 1000 None = 1000"
    by (simp add: Event_wait_def)
  from onPaint_composite [OF assms, of env]
  obtain s' where paint: "onPaint env s = Inr s'"
    and tail: "\<exists>front. trace s' = front @ [Window_swapBuffers, FrameDone_signal]
                                     @ (if Log_verbose env then [Log ''GLSWAP''] else [])"
    and view: "filter composite_event (trace s')
             = filter composite_event (trace s)
               @ slot_pass env 0 (m_width s) (m_height s) (m_quadListGL s)
                   (m_target s ! m_readBuffer s)
               @ (if drawBuffer (m_target s ! m_readBuffer s) = GL_BACK_LEFT
                  then slot_pass env 1 (m_width s) (m_height s)
                         (quadList_after env 0 (m_quadListGL s) (m_target s ! m_readBuffer s))
                         (m_target s ! ((m_readBuffer s + 1) mod length (m_target s)))
                  else [])
               @ (if stereoIndicator env
                  then [GL_DrawBuffer GL_BACK_LEFT, GL_DrawBuffer GL_BACK_RIGHT] else [])
               @ [Window_swapBuffers, FrameDone_signal]"
    by blast
  have quiet: "count_list (slot_pass env eye w h quadList t) FrameDone_signal = 0"
    for eye w h quadList t
    by (simp add: slot_pass_def slot_composite_def)
  have "count_list (trace s') FrameDone_signal
      = count_list (filter composite_event (trace s')) FrameDone_signal"
    by (simp add: count_list_filter)
  also have "\<dots> = count_list (filter composite_event (trace s)) FrameDone_signal + 1"
    unfolding view by (simp add: quiet)
  also have "\<dots> = count_list (trace s) FrameDone_signal + 1"
    by (simp add: count_list_filter)
  finally have once: "count_list (trace s') FrameDone_signal
      = count_list (trace s) FrameDone_signal + 1" .
  from wait same blocked bounded timeout paint once tail view show ?thesis
    by blast
qed

theorem frame_handshake_witness:
  "m_readBuffer (ready GL_BACK GL_BACK) < length (m_target (ready GL_BACK GL_BACK))
   \<and> producer_blocked None (trace (onPostPresentDX sample_env (ready GL_BACK GL_BACK))) = 1000
   \<and> (\<exists>s'. onPaint no_lock (ready GL_BACK GL_BACK) = Inr s'
        \<and> count_list (trace s') FrameDone_signal = 1
        \<and> filter composite_event (trace s')
            = [GL_DrawBuffer GL_BACK, GL_LockObject 0x300,
               Log ''unable to lock DX target on paint'',
               Window_swapBuffers, FrameDone_signal])
   \<and> (\<exists>s'. onPaint sample_env (ready GL_BACK_LEFT GL_BACK_RIGHT) = Inr s'
        \<and> count_list (trace s') FrameDone_signal = 1
        \<and> filter composite_event (trace s')
            = [GL_DrawBuffer GL_BACK_LEFT, GL_LockObject 0x300,
               GL_BlitFramebuffer 1 640 480, GL_UnlockObject 0x300,
               GL_DrawBuffer GL_BACK_RIGHT, GL_LockObject 0x301,
               GL_BlitFramebuffer 2 640 480, GL_UnlockObject 0x301,
               Window_swapBuffers, FrameDone_signal])"
proof -
  note inside = ready_inside(2) [of GL_BACK GL_BACK]
  have mono: "GL_BACK \<noteq> GL_BACK_LEFT"
    by (simp add: GL_BACK_def GL_BACK_LEFT_def)
  have blocked: "producer_blocked None (trace (onPostPresentDX sample_env (ready GL_BACK GL_BACK)))
      = 1000"
    using frame_handshake [OF inside, where env = sample_env and p = "ready GL_BACK GL_BACK"
      and consumer = None]
    by (simp add: ready_fields producer_blocked_def)
  from frame_handshake [OF inside, where env = no_lock and p = "ready GL_BACK GL_BACK"
      and consumer = None]
  obtain failed where "onPaint no_lock (ready GL_BACK GL_BACK) = Inr failed"
    and "count_list (trace failed) FrameDone_signal
           = count_list (trace (ready GL_BACK GL_BACK)) FrameDone_signal + 1"
    and "filter composite_event (trace failed)
           = filter composite_event (trace (ready GL_BACK GL_BACK))
             @ slot_pass no_lock 0 (m_width (ready GL_BACK GL_BACK))
                 (m_height (ready GL_BACK GL_BACK)) (m_quadListGL (ready GL_BACK GL_BACK))
                 (m_target (ready GL_BACK GL_BACK) ! m_readBuffer (ready GL_BACK GL_BACK))
             @ (if drawBuffer (m_target (ready GL_BACK GL_BACK)
                     ! m_readBuffer (ready GL_BACK GL_BACK)) = GL_BACK_LEFT
                then slot_pass no_lock 1 (m_width (ready GL_BACK GL_BACK))
                       (m_height (ready GL_BACK GL_BACK))
                       (quadList_after no_lock 0 (m_quadListGL (ready GL_BACK GL_BACK))
                          (m_target (ready GL_BACK GL_BACK) ! m_readBuffer (ready GL_BACK GL_BACK)))
                       (m_target (ready GL_BACK GL_BACK)
                          ! ((m_readBuffer (ready GL_BACK GL_BACK) + 1)
                               mod length (m_target (ready GL_BACK GL_BACK))))
                else [])
             @ (if stereoIndicator no_lock
                then [GL_DrawBuffer GL_BACK_LEFT, GL_DrawBuffer GL_BACK_RIGHT] else [])
             @ [Window_swapBuffers, FrameDone_signal]"
    by blast
  then have failed: "\<exists>s'. onPaint no_lock (ready GL_BACK GL_BACK) = Inr s'
        \<and> count_list (trace s') FrameDone_signal = 1
        \<and> filter composite_event (trace s')
            = [GL_DrawBuffer GL_BACK, GL_LockObject 0x300,
               Log ''unable to lock DX target on paint'',
               Window_swapBuffers, FrameDone_signal]"
    using mono by (simp add: ready_fields sample_labels sample_passes sample_indicators)
  let ?pair = "ready GL_BACK_LEFT GL_BACK_RIGHT"
  from frame_handshake [OF ready_inside(2) [of GL_BACK_LEFT GL_BACK_RIGHT],
      where env = sample_env and p = "ready GL_BACK GL_BACK" and consumer = None]
  obtain both where "onPaint sample_env ?pair = Inr both"
    and "count_list (trace both) FrameDone_signal
           = count_list (trace ?pair) FrameDone_signal + 1"
    and "filter composite_event (trace both)
           = filter composite_event (trace ?pair)
             @ slot_pass sample_env 0 (m_width ?pair) (m_height ?pair) (m_quadListGL ?pair)
                 (m_target ?pair ! m_readBuffer ?pair)
             @ (if drawBuffer (m_target ?pair ! m_readBuffer ?pair) = GL_BACK_LEFT
                then slot_pass sample_env 1 (m_width ?pair) (m_height ?pair)
                       (quadList_after sample_env 0 (m_quadListGL ?pair)
                          (m_target ?pair ! m_readBuffer ?pair))
                       (m_target ?pair ! ((m_readBuffer ?pair + 1) mod length (m_target ?pair)))
                else [])
             @ (if stereoIndicator sample_env
                then [GL_DrawBuffer GL_BACK_LEFT, GL_DrawBuffer GL_BACK_RIGHT] else [])
             @ [Window_swapBuffers, FrameDone_signal]"
    by blast
  then have stereo: "\<exists>s'. onPaint sample_env (ready GL_BACK_LEFT GL_BACK_RIGHT) = Inr s'
        \<and> count_list (trace s') FrameDone_signal = 1
        \<and> filter composite_event (trace s')
            = [GL_DrawBuffer GL_BACK_LEFT, GL_LockObject 0x300,
               GL_BlitFramebuffer 1 640 480, GL_UnlockObject 0x300,
               GL_DrawBuffer GL_BACK_RIGHT, GL_LockObject 0x301,
               GL_BlitFramebuffer 2 640 480, GL_UnlockObject 0x301,
               Window_swapBuffers, FrameDone_signal]"
    by (simp add: ready_fields sample_labels sample_passes sample_indicators)
  from inside blocked failed stereo show ?thesis
    by blast
qed

text \<open>
  C6. A composite pass runs the loop body once or twice. The first iteration selects
  the draw buffer named by the label of \<open>pool[readIndex]\<close>, then locks that slot, draws
  it (the blit, or the texture binding and the quad) and unlocks it; a second iteration,
  on the slot after it, follows exactly when the first label was \<^verbatim>\<open>GL_BACK_LEFT\<close>. The
  read cursor advances by one modulo the pool size per iteration, and every call of the
  iterations precedes the buffer swap. So a mono frame gives one iteration and a
  left/right pair two, left first.
\<close>

theorem composite_pass_iterations:
  assumes "m_readBuffer s < length (m_target s)"
  shows "\<exists>s'. onPaint env s = Inr s'
     \<and> m_readBuffer s' =
         (if drawBuffer (m_target s ! m_readBuffer s) = GL_BACK_LEFT
          then ((m_readBuffer s + 1) mod length (m_target s) + 1) mod length (m_target s)
          else (m_readBuffer s + 1) mod length (m_target s))
     \<and> filter composite_event (trace s')
         = filter composite_event (trace s)
           @ slot_pass env 0 (m_width s) (m_height s) (m_quadListGL s)
               (m_target s ! m_readBuffer s)
           @ (if drawBuffer (m_target s ! m_readBuffer s) = GL_BACK_LEFT
              then slot_pass env 1 (m_width s) (m_height s)
                     (quadList_after env 0 (m_quadListGL s) (m_target s ! m_readBuffer s))
                     (m_target s ! ((m_readBuffer s + 1) mod length (m_target s)))
              else [])
           @ (if stereoIndicator env then [GL_DrawBuffer GL_BACK_LEFT, GL_DrawBuffer GL_BACK_RIGHT]
              else [])
           @ [Window_swapBuffers, FrameDone_signal]"
proof -
  from onPaint_props [OF assms, of env]
  obtain s' where paint: "onPaint env s = Inr s'"
    and cursor: "m_readBuffer s' =
         (if drawBuffer (m_target s ! m_readBuffer s) = GL_BACK_LEFT
          then ((m_readBuffer s + 1) mod length (m_target s) + 1) mod length (m_target s)
          else (m_readBuffer s + 1) mod length (m_target s))"
    by blast
  from onPaint_composite [OF assms, of env]
  obtain q where again: "onPaint env s = Inr q"
    and order: "filter composite_event (trace q)
         = filter composite_event (trace s)
           @ slot_pass env 0 (m_width s) (m_height s) (m_quadListGL s)
               (m_target s ! m_readBuffer s)
           @ (if drawBuffer (m_target s ! m_readBuffer s) = GL_BACK_LEFT
              then slot_pass env 1 (m_width s) (m_height s)
                     (quadList_after env 0 (m_quadListGL s) (m_target s ! m_readBuffer s))
                     (m_target s ! ((m_readBuffer s + 1) mod length (m_target s)))
              else [])
           @ (if stereoIndicator env then [GL_DrawBuffer GL_BACK_LEFT, GL_DrawBuffer GL_BACK_RIGHT]
              else [])
           @ [Window_swapBuffers, FrameDone_signal]"
    by blast
  from paint again have "q = s'"
    by simp
  with paint cursor order show ?thesis
    by blast
qed

theorem composite_pass_iterations_witness:
  "m_readBuffer (ready GL_BACK_LEFT GL_BACK_RIGHT)
     < length (m_target (ready GL_BACK_LEFT GL_BACK_RIGHT))
   \<and> (\<exists>s'. onPaint sample_env (ready GL_BACK_LEFT GL_BACK_RIGHT) = Inr s'
        \<and> m_readBuffer s' = 0
        \<and> filter composite_event (trace s')
            = [GL_DrawBuffer GL_BACK_LEFT, GL_LockObject 0x300,
               GL_BlitFramebuffer 1 640 480, GL_UnlockObject 0x300,
               GL_DrawBuffer GL_BACK_RIGHT, GL_LockObject 0x301,
               GL_BlitFramebuffer 2 640 480, GL_UnlockObject 0x301,
               Window_swapBuffers, FrameDone_signal])
   \<and> (\<exists>s'. onPaint sample_env (ready GL_BACK GL_BACK) = Inr s'
        \<and> m_readBuffer s' = 1
        \<and> filter composite_event (trace s')
            = [GL_DrawBuffer GL_BACK, GL_LockObject 0x300,
               GL_BlitFramebuffer 1 640 480, GL_UnlockObject 0x300,
               Window_swapBuffers, FrameDone_signal])
   \<and> (\<exists>s'. onPaint textured (ready_textured GL_BACK_LEFT GL_BACK_RIGHT) = Inr s'
        \<and> m_readBuffer s' = 0
        \<and> filter composite_event (trace s')
            = [GL_DrawBuffer GL_BACK_LEFT, GL_LockObject 0x300,
               GL_BindTexture 1, GL_CallList 1, GL_UnlockObject 0x300,
               GL_DrawBuffer GL_BACK_RIGHT, GL_LockObject 0x301,
               GL_BindTexture 2, GL_CallList 1, GL_UnlockObject 0x301,
               Window_swapBuffers, FrameDone_signal])"
proof -
  have mono: "GL_BACK \<noteq> GL_BACK_LEFT"
    by (simp add: GL_BACK_def GL_BACK_LEFT_def)
  have stereo: "\<exists>s'. onPaint sample_env (ready GL_BACK_LEFT GL_BACK_RIGHT) = Inr s'
        \<and> m_readBuffer s' = 0
        \<and> filter composite_event (trace s')
            = [GL_DrawBuffer GL_BACK_LEFT, GL_LockObject 0x300,
               GL_BlitFramebuffer 1 640 480, GL_UnlockObject 0x300,
               GL_DrawBuffer GL_BACK_RIGHT, GL_LockObject 0x301,
               GL_BlitFramebuffer 2 640 480, GL_UnlockObject 0x301,
               Window_swapBuffers, FrameDone_signal]"
    using composite_pass_iterations [OF ready_inside(2) [of GL_BACK_LEFT GL_BACK_RIGHT],
        where env = sample_env]
    by (simp add: ready_fields sample_labels sample_passes sample_indicators)
  have single: "\<exists>s'. onPaint sample_env (ready GL_BACK GL_BACK) = Inr s'
        \<and> m_readBuffer s' = 1
        \<and> filter composite_event (trace s')
            = [GL_DrawBuffer GL_BACK, GL_LockObject 0x300,
               GL_BlitFramebuffer 1 640 480, GL_UnlockObject 0x300,
               Window_swapBuffers, FrameDone_signal]"
    using composite_pass_iterations [OF ready_inside(2) [of GL_BACK GL_BACK],
        where env = sample_env] mono
    by (simp add: ready_fields sample_labels sample_passes sample_indicators)
  have inside: "m_readBuffer (ready_textured GL_BACK_LEFT GL_BACK_RIGHT)
      < length (m_target (ready_textured GL_BACK_LEFT GL_BACK_RIGHT))"
    by (simp add: ready_textured_fields)
  have quad: "\<exists>s'. onPaint textured (ready_textured GL_BACK_LEFT GL_BACK_RIGHT) = Inr s'
        \<and> m_readBuffer s' = 0
        \<and> filter composite_event (trace s')
            = [GL_DrawBuffer GL_BACK_LEFT, GL_LockObject 0x300,
               GL_BindTexture 1, GL_CallList 1, GL_UnlockObject 0x300,
               GL_DrawBuffer GL_BACK_RIGHT, GL_LockObject 0x301,
               GL_BindTexture 2, GL_CallList 1, GL_UnlockObject 0x301,
               Window_swapBuffers, FrameDone_signal]"
    using composite_pass_iterations [OF inside, where env = textured]
    by (simp add: ready_textured_fields sample_labels textured_passes sample_indicators)
  from ready_inside(2) [of GL_BACK_LEFT GL_BACK_RIGHT] stereo single quad show ?thesis
    by blast
qed

text \<open>
  C9, as the code has it. An iteration of the composite loop whose interop lock fails
  selects the draw buffer, tries the lock once, logs "unable to lock DX target on
  paint", draws nothing and advances the read cursor; the pass goes on as after a
  successful iteration, so after a left slot the other slot is still locked and drawn,
  and \<^verbatim>\<open>onPaint\<close> returns normally. Because the cursor has advanced past the skipped
  slot, the next pass starts at the slot after it.
\<close>

theorem lock_failure_skips_slot:
  assumes "m_readBuffer s < length (m_target s)"
  shows "(object (m_target s ! m_readBuffer s) \<noteq> 0 \<and> \<not> wglDXLockObjectsNV_ok env eye \<longrightarrow>
        paint_eye env eye s =
          Inr (drawBuffer (m_target s ! m_readBuffer s) \<noteq> GL_BACK_LEFT,
               s\<lparr>m_readBuffer := (m_readBuffer s + 1) mod length (m_target s),
                 trace := trace s
                   @ (if Log_verbose env then [Log ''GL: render ''] else [])
                   @ [GL_DrawBuffer (drawBuffer (m_target s ! m_readBuffer s)),
                      GL_LockObject (object (m_target s ! m_readBuffer s)),
                      Log ''unable to lock DX target on paint'']\<rparr>))
     \<and> (\<exists>s'. onPaint env s = Inr s'
          \<and> m_readBuffer s' =
              (if drawBuffer (m_target s ! m_readBuffer s) = GL_BACK_LEFT
               then ((m_readBuffer s + 1) mod length (m_target s) + 1) mod length (m_target s)
               else (m_readBuffer s + 1) mod length (m_target s))
          \<and> filter lock_event (trace s')
              = filter lock_event (trace s)
                @ slot_locks env 0 (m_target s ! m_readBuffer s)
                @ (if drawBuffer (m_target s ! m_readBuffer s) = GL_BACK_LEFT
                   then slot_locks env 1
                          (m_target s ! ((m_readBuffer s + 1) mod length (m_target s)))
                   else [])
          \<and> filter draw_event (trace s')
              = filter draw_event (trace s)
                @ slot_draws env 0 (m_width s) (m_height s) (m_target s ! m_readBuffer s)
                @ (if drawBuffer (m_target s ! m_readBuffer s) = GL_BACK_LEFT
                   then slot_draws env 1 (m_width s) (m_height s)
                          (m_target s ! ((m_readBuffer s + 1) mod length (m_target s)))
                   else []))"
proof -
  have skip: "object (m_target s ! m_readBuffer s) \<noteq> 0 \<and> \<not> wglDXLockObjectsNV_ok env eye \<longrightarrow>
        paint_eye env eye s =
          Inr (drawBuffer (m_target s ! m_readBuffer s) \<noteq> GL_BACK_LEFT,
               s\<lparr>m_readBuffer := (m_readBuffer s + 1) mod length (m_target s),
                 trace := trace s
                   @ (if Log_verbose env then [Log ''GL: render ''] else [])
                   @ [GL_DrawBuffer (drawBuffer (m_target s ! m_readBuffer s)),
                      GL_LockObject (object (m_target s ! m_readBuffer s)),
                      Log ''unable to lock DX target on paint'']\<rparr>)"
    using assms by (simp add: paint_eye_def Let_def logIf_def emit_def)
  from onPaint_props [OF assms, of env] skip show ?thesis
    by auto
qed

theorem lock_failure_skips_slot_witness:
  "m_readBuffer (ready GL_BACK_LEFT GL_BACK_RIGHT)
     < length (m_target (ready GL_BACK_LEFT GL_BACK_RIGHT))
   \<and> object (m_target (ready GL_BACK_LEFT GL_BACK_RIGHT)
               ! m_readBuffer (ready GL_BACK_LEFT GL_BACK_RIGHT)) \<noteq> 0
   \<and> \<not> wglDXLockObjectsNV_ok first_lock_fails 0
   \<and> paint_eye first_lock_fails 0 (ready GL_BACK_LEFT GL_BACK_RIGHT)
       = Inr (False, (ready GL_BACK_LEFT GL_BACK_RIGHT)
           \<lparr>m_readBuffer := 1,
            trace := [GL_DrawBuffer GL_BACK_LEFT, GL_LockObject 0x300,
                      Log ''unable to lock DX target on paint'']\<rparr>)
   \<and> (\<exists>s'. onPaint first_lock_fails (ready GL_BACK_LEFT GL_BACK_RIGHT) = Inr s'
        \<and> m_readBuffer s' = 0
        \<and> filter lock_event (trace s')
            = [GL_LockObject 0x300, Log ''unable to lock DX target on paint'',
               GL_LockObject 0x301, GL_UnlockObject 0x301]
        \<and> filter draw_event (trace s') = [GL_BlitFramebuffer 2 640 480])"
proof -
  note inside = ready_inside(2) [of GL_BACK_LEFT GL_BACK_RIGHT]
  note fact = lock_failure_skips_slot [OF inside, where env = first_lock_fails and eye = 0]
  have handle: "object (m_target (ready GL_BACK_LEFT GL_BACK_RIGHT)
               ! m_readBuffer (ready GL_BACK_LEFT GL_BACK_RIGHT)) \<noteq> 0"
    by (simp add: ready_simps)
  have fails: "\<not> wglDXLockObjectsNV_ok first_lock_fails 0"
    by (simp add: first_lock_fails_def first_fails_def)
  have skipped: "paint_eye first_lock_fails 0 (ready GL_BACK_LEFT GL_BACK_RIGHT)
       = Inr (False, (ready GL_BACK_LEFT GL_BACK_RIGHT)
           \<lparr>m_readBuffer := 1,
            trace := [GL_DrawBuffer GL_BACK_LEFT, GL_LockObject 0x300,
                      Log ''unable to lock DX target on paint'']\<rparr>)"
    using fact handle fails
    by (simp add: ready_simps first_lock_fails_def sample_env_def)
  have pass: "\<exists>s'. onPaint first_lock_fails (ready GL_BACK_LEFT GL_BACK_RIGHT) = Inr s'
        \<and> m_readBuffer s' = 0
        \<and> filter lock_event (trace s')
            = [GL_LockObject 0x300, Log ''unable to lock DX target on paint'',
               GL_LockObject 0x301, GL_UnlockObject 0x301]
        \<and> filter draw_event (trace s') = [GL_BlitFramebuffer 2 640 480]"
    using fact
    by (simp add: ready_simps slot_locks_def slot_draws_def first_lock_fails_def
        first_fails_def sample_env_def)
  from inside handle fails skipped pass show ?thesis
    by blast
qed

text \<open>
  C9 as the spec states it ("the next pass will attempt the same slot again") fails:
  with two mono slots, the first pass fails to lock slot 0 (interop object \<open>0x300\<close>),
  and the second pass locks and draws slot 1 (object \<open>0x301\<close>); slot 0 is not tried
  again.
\<close>

theorem lock_failure_not_retried_counterexample:
  "filter lock_event
     (final_trace (run [(no_lock, WindowProc WM_PAINT), (sample_env, WindowProc WM_PAINT)]
                     (ready GL_BACK GL_BACK)))
   = [GL_LockObject 0x300, Log ''unable to lock DX target on paint'',
      GL_LockObject 0x301, GL_UnlockObject 0x301]"
proof -
  have mono: "GL_BACK \<noteq> GL_BACK_LEFT"
    by (simp add: GL_BACK_def GL_BACK_LEFT_def)
  from windowProc_paint_props [OF ready_inside(2) [of GL_BACK GL_BACK], of no_lock]
  obtain s1 where first: "windowProc no_lock WM_PAINT (ready GL_BACK GL_BACK) = Inr s1"
    and pool: "m_target s1 = m_target (ready GL_BACK GL_BACK)"
    and cursor: "m_readBuffer s1 = 1"
    and locks1: "filter lock_event (trace s1)
        = [GL_LockObject 0x300, Log ''unable to lock DX target on paint'']"
    using mono
    by (auto simp: ready_simps slot_locks_def no_lock_def never_def sample_env_def)
  have inside1: "m_readBuffer s1 < length (m_target s1)"
    by (simp add: pool cursor ready_simps)
  from windowProc_paint_props [OF inside1, of sample_env]
  obtain s2 where second: "windowProc sample_env WM_PAINT s1 = Inr s2"
    and locks2: "filter lock_event (trace s2)
        = [GL_LockObject 0x300, Log ''unable to lock DX target on paint'',
           GL_LockObject 0x301, GL_UnlockObject 0x301]"
    using mono
    by (auto simp: pool cursor locks1 ready_simps slot_locks_def always_def sample_env_def)
  have "run [(no_lock, WindowProc WM_PAINT), (sample_env, WindowProc WM_PAINT)]
          (ready GL_BACK GL_BACK) = Inr s2"
    by (simp only: run.simps step.simps first second sum.case)
  then show ?thesis
    by (simp only: final_trace.simps locks2)
qed

subsection \<open>Invariants of a session\<close>

text \<open>
  C3. The constructor leaves the mode flag at mono. A viewport call with the sentinel
  geometry that returns leaves it at stereo. From then on it stays at stereo: no call
  that reaches the object (the five producer events, the thread body, a window
  message) resets it, and so no session of such calls does, however long.
\<close>

theorem stereo_mode_one_way:
  "\<not> m_stereoMode (Quadifier_new device direct3D stereoAvailable)
   \<and> (X vp = 1 \<and> Width vp = 2 \<and> Height vp = 3
        \<and> step env (OnPreSetViewportDX (Some vp)) s = Inr signalled \<longrightarrow> m_stereoMode signalled)
   \<and> (m_stereoMode s \<and> step env c s = Inr s' \<longrightarrow> m_stereoMode s')
   \<and> (m_stereoMode s \<and> run cs s = Inr final \<longrightarrow> m_stereoMode final)"
proof -
  have mono: "\<not> m_stereoMode (Quadifier_new device direct3D stereoAvailable)"
    by (simp add: Quadifier_new_def)
  have signal: "m_stereoMode signalled"
    if "X vp = 1 \<and> Width vp = 2 \<and> Height vp = 3"
      and "step env (OnPreSetViewportDX (Some vp)) s = Inr signalled"
  proof -
    from that have "onStereoSignal env s = Inr signalled"
      by (auto simp: onPreSetViewportDX_cases split: sum.splits)
    then show ?thesis
      by (rule onStereoSignal_result(1))
  qed
  from mono signal step_stereo [of env c s s'] run_stereo [of cs s final] show ?thesis
    by blast
qed

theorem stereo_mode_one_way_witness:
  "X sentinel_viewport = 1 \<and> Width sentinel_viewport = 2 \<and> Height sentinel_viewport = 3
   \<and> \<not> m_stereoMode consumer_ready
   \<and> (\<exists>s1 s2. step sample_env (OnPreSetViewportDX (Some sentinel_viewport)) consumer_ready
                 = Inr s1
        \<and> m_stereoMode s1
        \<and> run [(sample_env, OnPrePresentDX), (sample_env, OnPostPresentDX),
                (no_lock, WindowProc WM_PAINT), (sample_env, OnPreClearDX)] s1 = Inr s2
        \<and> m_stereoMode s2)"
proof -
  have geometry: "X sentinel_viewport = 1 \<and> Width sentinel_viewport = 2
      \<and> Height sentinel_viewport = 3"
    by (simp add: sentinel_viewport_def)
  have mono: "\<not> m_stereoMode consumer_ready"
    by (simp add: consumer_ready_def capturing_def presented_once_def fresh_def
        Quadifier_new_def)
  have ok: "SetRenderTarget_ok sample_env"
    by (simp add: sample_env_def)
  have draw0: "m_drawBuffer consumer_ready < length (m_target consumer_ready)"
    using consumer_ready_inv by (simp add: pool_inv_def)
  from onStereoSignal_eq [OF draw0, of sample_env] ok
  obtain s1 where signal: "onStereoSignal sample_env consumer_ready = Inr s1"
    by simp
  with geometry have step1:
      "step sample_env (OnPreSetViewportDX (Some sentinel_viewport)) consumer_ready = Inr s1"
    by (simp add: onPreSetViewportDX_def)
  note fact = stereo_mode_one_way [where env = sample_env and vp = sentinel_viewport
      and s = consumer_ready and signalled = s1]
  from fact geometry step1 have flag1: "m_stereoMode s1"
    by blast
  have inv1: "pool_inv s1"
    using onStereoSignal_result(2,3,4) [OF signal] consumer_ready_inv
    by (simp add: pool_inv_def poolSize_def)
  then have draw1: "m_drawBuffer s1 < length (m_target s1)"
    by (simp add: pool_inv_def)
  from onPrePresentDX_eq [OF draw1, of sample_env]
  obtain q1 where present: "step sample_env OnPrePresentDX s1 = Inr q1"
    and q1: "m_readBuffer q1 = m_readBuffer s1" "m_target q1 = (m_target s1)
          [m_drawBuffer s1 := (m_target s1 ! m_drawBuffer s1)
             \<lparr>drawBuffer := (if m_stereoMode s1 then GL_BACK_RIGHT else GL_BACK)\<rparr>]"
      "m_drawBuffer q1 = (m_drawBuffer s1 + 1) mod length (m_target s1)"
    by auto
  have inv_q1: "pool_inv q1"
    using inv1 q1 by (simp add: pool_inv_def poolSize_def)
  define q2 where "q2 = onPostPresentDX sample_env q1"
  have wait: "step sample_env OnPostPresentDX q1 = Inr q2"
    by (simp add: q2_def)
  have inv_q2: "pool_inv q2"
    using inv_q1 pv_fields(6) [OF pv_onPostPresentDX [of sample_env q1]] by (simp add: q2_def)
  then have read2: "m_readBuffer q2 < length (m_target q2)"
    by (simp add: pool_inv_def)
  from windowProc_paint_props [OF read2, of no_lock]
  obtain q3 where paint: "step no_lock (WindowProc WM_PAINT) q2 = Inr q3"
    and q3: "m_target q3 = m_target q2" "m_drawBuffer q3 = m_drawBuffer q2"
    by auto
  have draw3: "m_drawBuffer q3 < length (m_target q3)"
    using inv_q2 q3 by (simp add: pool_inv_def)
  from onPreClearDX_cases [OF draw3, of sample_env] ok
  obtain q4 where clear: "step sample_env OnPreClearDX q3 = Inr q4"
    by auto
  have session: "run [(sample_env, OnPrePresentDX), (sample_env, OnPostPresentDX),
                (no_lock, WindowProc WM_PAINT), (sample_env, OnPreClearDX)] s1 = Inr q4"
    by (simp only: run.simps present wait paint clear sum.case)
  from stereo_mode_one_way [where s = s1 and final = q4
      and cs = "[(sample_env, OnPrePresentDX), (sample_env, OnPostPresentDX),
                (no_lock, WindowProc WM_PAINT), (sample_env, OnPreClearDX)]"] flag1 session
  have "m_stereoMode q4"
    by blast
  with geometry mono step1 flag1 session show ?thesis
    by blast
qed

text \<open>
  C4, as the code has it. The pool has \<open>poolSize = 2\<close> slots and both cursors start
  inside it. Every call keeps them inside it and never indexes the pool out of range.
  The draw cursor moves only in a call that reaches \<^verbatim>\<open>endCapture\<close>, by one modulo the pool
  size; the read cursor moves only in a composite pass (\<^verbatim>\<open>WM_PAINT\<close>), by one modulo the
  pool size per iteration. The composite pass selects the slot under the read cursor
  whatever its label is: nothing in it asks whether the slot was ever tagged.
\<close>

theorem pool_cursors:
  assumes "pool_inv s"
  shows "pool_inv (Quadifier_new device direct3D stereoAvailable)
     \<and> step env c s \<noteq> Inl IndexOutOfRange
     \<and> (step env c s = Inr s' \<longrightarrow>
          pool_inv s'
          \<and> m_drawBuffer s' =
              (if calls_endCapture c then (m_drawBuffer s + 1) mod poolSize
               else m_drawBuffer s)
          \<and> m_readBuffer s' =
              (if c = WindowProc WM_PAINT then
                 (if drawBuffer (m_target s ! m_readBuffer s) = GL_BACK_LEFT
                  then ((m_readBuffer s + 1) mod poolSize + 1) mod poolSize
                  else (m_readBuffer s + 1) mod poolSize)
               else m_readBuffer s)
          \<and> (c = WindowProc WM_PAINT \<longrightarrow>
               filter pass_event (trace s')
               = filter pass_event (trace s)
                 @ [GL_DrawBuffer (drawBuffer (m_target s ! m_readBuffer s))]
                 @ (if drawBuffer (m_target s ! m_readBuffer s) = GL_BACK_LEFT
                    then [GL_DrawBuffer (drawBuffer
                            (m_target s ! ((m_readBuffer s + 1) mod poolSize)))]
                    else [])
                 @ (if stereoIndicator env
                    then [GL_DrawBuffer GL_BACK_LEFT, GL_DrawBuffer GL_BACK_RIGHT] else [])
                 @ [Window_swapBuffers, FrameDone_signal]))"
proof -
  from assms have len: "length (m_target s) = poolSize"
    and draw: "m_drawBuffer s < poolSize" and read: "m_readBuffer s < poolSize"
    by (simp_all add: pool_inv_def)
  have positive: "0 < poolSize"
    by (simp add: poolSize_def)
  have init: "pool_inv (Quadifier_new device direct3D stereoAvailable)"
    by (simp add: pool_inv_def Quadifier_new_def poolSize_def)
  have safe: "step env c s \<noteq> Inl IndexOutOfRange"
    using assms by (rule step_safe)
  have moved: "pool_inv s'
          \<and> m_drawBuffer s' =
              (if calls_endCapture c then (m_drawBuffer s + 1) mod poolSize
               else m_drawBuffer s)
          \<and> m_readBuffer s' =
              (if c = WindowProc WM_PAINT then
                 (if drawBuffer (m_target s ! m_readBuffer s) = GL_BACK_LEFT
                  then ((m_readBuffer s + 1) mod poolSize + 1) mod poolSize
                  else (m_readBuffer s + 1) mod poolSize)
               else m_readBuffer s)
          \<and> (c = WindowProc WM_PAINT \<longrightarrow>
               filter pass_event (trace s')
               = filter pass_event (trace s)
                 @ [GL_DrawBuffer (drawBuffer (m_target s ! m_readBuffer s))]
                 @ (if drawBuffer (m_target s ! m_readBuffer s) = GL_BACK_LEFT
                    then [GL_DrawBuffer (drawBuffer
                            (m_target s ! ((m_readBuffer s + 1) mod poolSize)))]
                    else [])
                 @ (if stereoIndicator env
                    then [GL_DrawBuffer GL_BACK_LEFT, GL_DrawBuffer GL_BACK_RIGHT] else [])
                 @ [Window_swapBuffers, FrameDone_signal])"
    if ret: "step env c s = Inr s'"
  proof (cases "calls_endCapture c")
    case True
    then have "c \<noteq> WindowProc WM_PAINT"
      by auto
    with True step_capture(2,3,4) [OF True ret] len draw read positive show ?thesis
      by (simp add: pool_inv_def)
  next
    case False
    show ?thesis
    proof (cases "c = WindowProc WM_PAINT")
      case True
      with ret have paint: "step env (WindowProc WM_PAINT) s = Inr s'"
        by simp
      from step_paint(2,3,4,5) [OF paint] True False len draw read positive show ?thesis
        by (simp add: pool_inv_def)
    next
      case paint: False
      note view = step_quiet [OF False paint ret]
      from pv_fields(2,3,6) [OF view] False paint assms show ?thesis
        by simp
    qed
  qed
  from init safe moved show ?thesis
    by blast
qed

theorem pool_cursors_witness:
  "pool_inv consumer_ready
   \<and> (\<exists>s'. step sample_env (WindowProc WM_PAINT) consumer_ready = Inr s'
        \<and> pool_inv s'
        \<and> m_drawBuffer s' = 1
        \<and> m_readBuffer s' = 1
        \<and> filter pass_event (trace s')
            = [GL_DrawBuffer GL_BACK, Window_swapBuffers, FrameDone_signal])"
proof -
  have read: "m_readBuffer consumer_ready < length (m_target consumer_ready)"
    by (simp add: consumer_ready_fields)
  from windowProc_paint_props [OF read, of sample_env]
  obtain s' where "windowProc sample_env WM_PAINT consumer_ready = Inr s'"
    by blast
  then have ret: "step sample_env (WindowProc WM_PAINT) consumer_ready = Inr s'"
    by simp
  have mono: "GL_BACK \<noteq> GL_BACK_LEFT"
    by (simp add: GL_BACK_def GL_BACK_LEFT_def)
  have draw: "m_drawBuffer consumer_ready = 1"
    by (simp add: consumer_ready_def capturing_def presented_once_def)
  have quiet: "\<not> stereoIndicator sample_env"
    by (simp add: sample_env_def)
  from pool_cursors [OF consumer_ready_inv, where env = sample_env
      and c = "WindowProc WM_PAINT" and s' = s'] ret
  have "pool_inv s' \<and> m_drawBuffer s' = 1 \<and> m_readBuffer s' = 1
        \<and> filter pass_event (trace s')
            = [GL_DrawBuffer GL_BACK, Window_swapBuffers, FrameDone_signal]"
    by (simp add: consumer_ready_fields mono draw quiet poolSize_def)
  with consumer_ready_inv ret show ?thesis
    by blast
qed

text \<open>
  C4 as the spec states it ("a slot whose label is still none is never selected for
  composite") fails in the session \<open>early_paints\<close>: the first present tags slot 0, the
  second frame's clear creates the resources and starts the consumer, and the second of
  two paints that arrive before the second present selects slot 1, whose label is still
  \<^verbatim>\<open>GL_NONE\<close>, locks it and blits it.
\<close>

theorem untagged_slot_selected_counterexample:
  "filter pass_event (final_trace (run early_paints fresh))
     = [GL_DrawBuffer GL_BACK, Window_swapBuffers, FrameDone_signal,
        GL_DrawBuffer GL_NONE, Window_swapBuffers, FrameDone_signal]
   \<and> filter draw_event (final_trace (run early_paints fresh))
     = [GL_BlitFramebuffer 1 640 480, GL_BlitFramebuffer 2 640 480]"
  by (simp only: early_paints_run two_paints simp_thms)

subsection \<open>Resource creation and the consumer thread\<close>

text \<open>
  What the calls of \<^verbatim>\<open>onCreate\<close>, \<^verbatim>\<open>threadFunc\<close> and \<^verbatim>\<open>createResources\<close> leave of the
  lifecycle: the flag \<^verbatim>\<open>m_initialised\<close>, the thread handle, the source window, and the
  events by which the consumer thread starts, shows its window, runs, asks the source
  window to quit and ends.
\<close>

lemma lv_emit: "\<not> lifecycle_event e \<Longrightarrow> lifecycle_view (emit e s) = lifecycle_view s"
  by (simp add: lifecycle_view_def emit_def)

lemma lv_emit_quiet [simp]:
  "lifecycle_view (emit (Log msg) s) = lifecycle_view s"
  "lifecycle_view (emit (Call name) s) = lifecycle_view s"
  "lifecycle_view (emit (GL_LockObject obj) s) = lifecycle_view s"
  "lifecycle_view (emit (GL_UnlockObject obj) s) = lifecycle_view s"
  "lifecycle_view (emit (D3D_CreateRenderTarget i w h format samples) s) = lifecycle_view s"
  "lifecycle_view (emit D3D_GetRenderTarget_backBuffer s) = lifecycle_view s"
  by (simp_all add: lv_emit)

lemma lv_logIf [simp]: "lifecycle_view (logIf b msg s) = lifecycle_view s"
  by (simp add: logIf_def)

lemma pool_emit [simp]: "m_target (emit e s) = m_target s"
  by (simp add: emit_def)

lemma pool_logIf [simp]: "m_target (logIf b msg s) = m_target s"
  by (simp add: logIf_def)

lemma interop_emit [simp]: "m_interopGLDX (emit e s) = m_interopGLDX s"
  by (simp add: emit_def)

lemma lv_updates [simp]:
  "lifecycle_view (m_width_update fw s) = lifecycle_view s"
  "lifecycle_view (m_height_update fh s) = lifecycle_view s"
  "lifecycle_view (m_samplesDX_update fx s) = lifecycle_view s"
  "lifecycle_view (m_samplesGL_update fx s) = lifecycle_view s"
  "lifecycle_view (m_backBuffer_update fp s) = lifecycle_view s"
  "lifecycle_view (m_interopGLDX_update fp s) = lifecycle_view s"
  "lifecycle_view (m_target_update ft s) = lifecycle_view s"
  by (simp_all add: lifecycle_view_def)

lemma lv_set_slot [simp]: "lifecycle_view (set_slot i f s) = lifecycle_view s"
  by (simp add: set_slot_def)

lemma lv_fold_log:
  "lifecycle_view (foldl (\<lambda>st name. emit (Log (p @ name)) st) s names) = lifecycle_view s"
  by (induction names arbitrary: s) (simp_all add: lv_emit)

lemma lv_attach_colour [simp]: "lifecycle_view (attach_colour env i s) = lifecycle_view s"
  by (simp add: attach_colour_def Let_def lv_fold_log lv_emit)

lemma lv_check_status [simp]: "lifecycle_view (check_status env i s) = lifecycle_view s"
  by (simp add: check_status_def Let_def lv_emit)

lemma lv_gl_target: "lifecycle_view (snd (gl_target env i s)) = lifecycle_view s"
  by (simp add: gl_target_def Let_def lv_emit)

lemma len_gl_target: "length (m_target (snd (gl_target env i s))) = length (m_target s)"
  using pv_fields(4) [OF pv_gl_target [of env i s]] .


lemma gl_target_ok:
  "i < length (m_target s) \<Longrightarrow> fst (gl_target env i s) = slot_ok env i"
  by (simp add: gl_target_def Let_def set_slot_def emit_def logIf_def slot_ok_def)

lemma gl_targets_step:
  assumes "i < length (m_target s)"
  shows "gl_targets env i s =
     (if slot_ok env i then gl_targets env (i + 1) (snd (gl_target env i s))
      else (i, snd (gl_target env i s)))"
proof -
  obtain ok s' where pass: "gl_target env i s = (ok, s')"
    by (cases "gl_target env i s")
  with gl_target_ok [OF assms, of env] have "ok = slot_ok env i"
    by simp
  with assms pass show ?thesis
    by (subst gl_targets.simps) simp
qed

lemma gl_targets_props:
  assumes "i \<le> length (m_target s)"
  shows "lifecycle_view (snd (gl_targets env i s)) = lifecycle_view s
     \<and> (fst (gl_targets env i s) = length (m_target s))
         = list_all (slot_ok env) [i..<length (m_target s)]
     \<and> fst (gl_targets env i s) \<le> length (m_target s)"
  using assms
proof (induction k \<equiv> "length (m_target s) - i" arbitrary: i s)
  case 0
  then have "\<not> i < length (m_target s)" and "i = length (m_target s)"
    by simp_all
  then show ?case
    by (subst (1 2 3) gl_targets.simps) simp
next
  case (Suc k)
  then have less: "i < length (m_target s)"
    by simp
  let ?s' = "snd (gl_target env i s)"
  have len: "length (m_target ?s') = length (m_target s)"
    by (rule len_gl_target)
  have upt: "[i..<length (m_target s)] = i # [i + 1..<length (m_target s)]"
    using less by (simp add: upt_conv_Cons)
  show ?case
  proof (cases "slot_ok env i")
    case False
    with less show ?thesis
      by (simp add: gl_targets_step [OF less] lv_gl_target upt)
  next
    case True
    have "k = length (m_target ?s') - (i + 1)" and "i + 1 \<le> length (m_target ?s')"
      using Suc.hyps(2) less len by simp_all
    from Suc.hyps(1) [OF this]
    have "lifecycle_view (snd (gl_targets env (i + 1) ?s')) = lifecycle_view ?s'
     \<and> (fst (gl_targets env (i + 1) ?s') = length (m_target ?s'))
         = list_all (slot_ok env) [i + 1..<length (m_target ?s')]
     \<and> fst (gl_targets env (i + 1) ?s') \<le> length (m_target ?s')" .
    with True show ?thesis
      unfolding gl_targets_step [OF less] upt
      by (simp add: len lv_gl_target)
  qed
qed

lemma lv_gl_targets [simp]:
  "lifecycle_view (snd (gl_targets env 0 s)) = lifecycle_view s"
  using gl_targets_props [of 0 s env] by simp








lemma lv_display_format [simp]:
  "lifecycle_view (snd (display_format env s))
     = (m_initialised s, m_thread s, hFocusWindow (create_env env),
        filter lifecycle_event (trace s))"
  "m_target (snd (display_format env s)) = m_target s"
  by (simp_all add: display_format_def Let_def lifecycle_view_def emit_def split: option.splits)

lemma lv_target_description [simp]:
  "lifecycle_view (snd (target_description env s)) = lifecycle_view s"
  "m_target (snd (target_description env s)) = m_target s"
  by (simp_all add: target_description_def Let_def lifecycle_view_def emit_def logIf_def
      split: option.splits)

lemma lv_multisample_type [simp]:
  "lifecycle_view (snd (multisample_type env d f s)) = lifecycle_view s"
  "m_target (snd (multisample_type env d f s)) = m_target s"
  by (simp_all add: multisample_type_def Let_def lifecycle_view_def emit_def logIf_def)

lemma lv_depth_stencil_info [simp]:
  "lifecycle_view (depth_stencil_info env s) = lifecycle_view s"
  "m_target (depth_stencil_info env s) = m_target s"
  by (simp_all add: depth_stencil_info_def)















end
